theory Spec2Isabelle
  imports Complex_Main "HOL-Library.Signed_Division"
begin

section \<open>Data model of game.go and config.go\<close>

text \<open>
  Conventions of the embedding.
  \<^item> Go's \<^verbatim>\<open>int\<close> is modelled by \<^typ>\<open>int\<close>; \<^verbatim>\<open>math.MaxInt\<close> is the
    constant of a 64-bit platform. Arithmetic overflow is not modelled. Integer division
    \<^verbatim>\<open>/\<close> truncates towards zero (\<open>sdiv\<close>).
  \<^item> \<^verbatim>\<open>time.Time\<close> is a number of nanoseconds on one absolute axis, \<^verbatim>\<open>time.Duration\<close>
    a number of nanoseconds; \<^verbatim>\<open>t.Add(d)\<close> is \<open>t + d\<close>, \<^verbatim>\<open>t.Before(u)\<close> is \<open>t < u\<close>, and
    the zero value \<^verbatim>\<open>time.Time{}\<close> is \<open>zeroTime\<close>. \<^verbatim>\<open>time.Now()\<close> is an explicit argument.
  \<^item> A \<^verbatim>\<open>float64\<close> value is the real number it denotes. The floating-point operations
    that scaledCost uses (the conversions between \<^verbatim>\<open>int\<close> and \<^verbatim>\<open>float64\<close>, the product,
    \<^verbatim>\<open>math.Pow\<close>, \<^verbatim>\<open>math.Ceil\<close>) belong to the language and its library, not to the
    repository, and they round: they are a parameter of the model (\<open>float64_ops\<close>), and
    what is proved of UpgradeWorker holds for every such parameter unless a hypothesis
    says otherwise.
  \<^item> The Resource Ledger \<^verbatim>\<open>map[string]int\<close> is a map \<open>string \<rightharpoonup> int\<close>; reading a missing
    key gives 0 (\<open>getR\<close>). A cost table, which the code only reads and ranges over, is an
    association list; a Go map has every key once, so cost tables are taken with
    distinct keys where the order of the range could otherwise matter.
  \<^item> A method that mutates its receiver returns the new state. An index out of range
    panics: the operation returns \<open>None\<close>.
\<close>

type_synonym time = int
type_synonym duration = int
type_synonym ledger = "string \<rightharpoonup> int"
type_synonym cost = "(string \<times> int) list"

definition zeroTime :: time where
  "zeroTime = 0"

definition MaxInt :: int where
  "MaxInt = 9223372036854775807"

record WorkerConfig =
  Key :: string
  WorkerName :: string
  Produces :: string
  ProdRate :: duration
  ProdQuant :: int
  UpgradeMult :: real
  AutoTier :: int
  Level :: int
  Cost :: cost

record PassiveProductionSpec =
  pResource :: string
  pProdRate :: duration
  pProdQuant :: int

record IndustryConfig =
  cKey :: string
  cName :: string
  cResource :: string
  cWorkers :: "WorkerConfig list"

record GameConfig =
  StartingResources :: ledger
  StartingProduction :: "PassiveProductionSpec list"
  cIndustries :: "IndustryConfig list"

record WorkerState =
  Definition :: WorkerConfig
  Owned :: int
  Tier :: int
  Running :: bool
  EndsAt :: time
  Auto :: bool

record PassiveProductionState =
  pDefinition :: PassiveProductionSpec
  NextAt :: time

record IndustryState =
  iKey :: string
  iName :: string
  iResource :: string
  Workers :: "WorkerState list"

record GameState =
  Industries :: "IndustryState list"
  Resources :: ledger
  Production :: "PassiveProductionState list"
  BuyModeMax :: bool
  DevMode :: bool

record saveWorker =
  sKey :: string
  sOwned :: int
  sTier :: int
  sAuto :: bool

record saveIndustry =
  siKey :: string
  siWorkers :: "saveWorker list"

record saveProduction =
  sNextAt :: time

text \<open>The resource map of a snapshot can be nil (absent or null in the JSON).\<close>

record saveGame =
  sIndustries :: "saveIndustry list"
  sResources :: "ledger option"
  sProduction :: "saveProduction list"
  sBuyModeMax :: bool
  sDevMode :: bool
  SavedAt :: time
  Version :: int

section \<open>Helpers\<close>

definition getR :: "ledger \<Rightarrow> string \<Rightarrow> int" where
  "getR res r = (case res r of None \<Rightarrow> 0 | Some v \<Rightarrow> v)"

definition minInt :: "int \<Rightarrow> int \<Rightarrow> int" where
  "minInt a b = (if a < b then a else b)"

definition maxInt :: "int \<Rightarrow> int \<Rightarrow> int" where
  "maxInt a b = (if a > b then a else b)"

text \<open>\<^verbatim>\<open>fmt.Sprintf("%d", n)\<close>.\<close>

definition digit :: "nat \<Rightarrow> char" where
  "digit n = ''0123456789'' ! n"

function show_nat :: "nat \<Rightarrow> string" where
  "show_nat n = (if n < 10 then [digit n] else show_nat (n div 10) @ [digit (n mod 10)])"
  by pat_completeness auto
termination
  by (relation "measure id") auto

declare show_nat.simps [simp del]

definition show_int :: "int \<Rightarrow> string" where
  "show_int i = (if i < 0 then CHR ''-'' # show_nat (nat (- i)) else show_nat (nat i))"



text \<open>\<^verbatim>\<open>&g.Industries[industryIndex].Workers[workerIndex]\<close>: \<open>None\<close> is the index panic.\<close>

definition worker_at :: "GameState \<Rightarrow> int \<Rightarrow> int \<Rightarrow> WorkerState option" where
  "worker_at g industryIndex workerIndex =
     (if industryIndex < 0 \<or> int (length (Industries g)) \<le> industryIndex then None
      else let industry = Industries g ! nat industryIndex in
        if workerIndex < 0 \<or> int (length (Workers industry)) \<le> workerIndex then None
        else Some (Workers industry ! nat workerIndex))"

definition set_worker :: "GameState \<Rightarrow> int \<Rightarrow> int \<Rightarrow> WorkerState \<Rightarrow> GameState" where
  "set_worker g industryIndex workerIndex w =
     (let industry = Industries g ! nat industryIndex in
      g\<lparr>Industries := (Industries g)[nat industryIndex :=
           industry\<lparr>Workers := (Workers industry)[nat workerIndex := w]\<rparr>]\<rparr>)"

section \<open>Economy: canAfford, maxAffordable, scaledCost, BuyWorker, UpgradeWorker\<close>

fun canAfford :: "cost \<Rightarrow> ledger \<Rightarrow> bool" where
  "canAfford [] resources = True"
| "canAfford ((resource, amount) # rest) resources =
     (if getR resources resource < amount then False else canAfford rest resources)"

fun maxAffordable_loop :: "cost \<Rightarrow> ledger \<Rightarrow> int \<Rightarrow> int" where
  "maxAffordable_loop [] resources limit = limit"
| "maxAffordable_loop ((resource, amount) # rest) resources limit =
     (if amount \<le> 0 then maxAffordable_loop rest resources limit
      else maxAffordable_loop rest resources (minInt limit (getR resources resource sdiv amount)))"

definition maxAffordable :: "cost \<Rightarrow> ledger \<Rightarrow> int" where
  "maxAffordable c resources =
     (let limit = maxAffordable_loop c resources MaxInt in
      if limit = MaxInt then 0 else limit)"

text \<open>
  The floating-point operations of scaledCost: \<^verbatim>\<open>float64(n)\<close>, \<^verbatim>\<open>math.Pow(x, y)\<close>,
  \<^verbatim>\<open>x * y\<close> on float64, \<^verbatim>\<open>math.Ceil(x)\<close> and \<^verbatim>\<open>int(x)\<close>.
\<close>

record float64_ops =
  float64_of_int :: "int \<Rightarrow> real"
  math_Pow :: "real \<Rightarrow> real \<Rightarrow> real"
  float64_mul :: "real \<Rightarrow> real \<Rightarrow> real"
  math_Ceil :: "real \<Rightarrow> real"
  int_of_float64 :: "real \<Rightarrow> int"

definition scaledCost :: "float64_ops \<Rightarrow> cost \<Rightarrow> real \<Rightarrow> int \<Rightarrow> cost" where
  "scaledCost fl base multiplier tier =
     (let factor = math_Pow fl multiplier (float64_of_int fl (maxInt (tier - 1) 0)) in
      map (\<lambda>(resource, amount).
             (resource,
              int_of_float64 fl (math_Ceil fl (float64_mul fl (float64_of_int fl amount) factor))))
        base)"

text \<open>The debit loop \<^verbatim>\<open>for resource, amount := range cost { g.Resources[resource] -= amount * count }\<close>.\<close>

fun debit :: "cost \<Rightarrow> int \<Rightarrow> ledger \<Rightarrow> ledger" where
  "debit [] n resources = resources"
| "debit ((resource, amount) # rest) n resources =
     debit rest n (resources(resource \<mapsto> getR resources resource - amount * n))"

text \<open>The purchase count of BuyWorker; \<open>None\<close> is the early return "cannot afford".\<close>

definition buy_count :: "GameState \<Rightarrow> cost \<Rightarrow> int option" where
  "buy_count g c =
     (if DevMode g then
        (if BuyModeMax g then
           (let n = maxAffordable c (Resources g) in Some (if n < 1 then 1 else n))
         else Some 1)
      else if BuyModeMax g then Some (maxAffordable c (Resources g))
      else if \<not> canAfford c (Resources g) then None
      else Some 1)"

definition BuyWorker :: "GameState \<Rightarrow> int \<Rightarrow> int \<Rightarrow> (string \<times> GameState) option" where
  "BuyWorker g industryIndex workerIndex =
     (case worker_at g industryIndex workerIndex of
        None \<Rightarrow> None
      | Some worker \<Rightarrow>
          let c = Cost (Definition worker) in
          (case buy_count g c of
             None \<Rightarrow> Some (''cannot afford'', g)
           | Some n \<Rightarrow>
               if n \<le> 0 then Some (''cannot afford'', g)
               else
                 let g1 = (if \<not> DevMode g then g\<lparr>Resources := debit c n (Resources g)\<rparr> else g);
                     g2 = set_worker g1 industryIndex workerIndex
                            (worker\<lparr>Owned := Owned worker + n\<rparr>)
                 in Some (''bought '' @ show_int n, g2)))"

definition UpgradeWorker ::
    "float64_ops \<Rightarrow> GameState \<Rightarrow> int \<Rightarrow> int \<Rightarrow> (string \<times> GameState) option" where
  "UpgradeWorker fl g industryIndex workerIndex =
     (case worker_at g industryIndex workerIndex of
        None \<Rightarrow> None
      | Some worker \<Rightarrow>
          let c = scaledCost fl (Cost (Definition worker)) (UpgradeMult (Definition worker))
                    (Tier worker) in
          if \<not> DevMode g \<and> \<not> canAfford c (Resources g) then Some (''cannot afford upgrade'', g)
          else
            let g1 = (if \<not> DevMode g then g\<lparr>Resources := debit c 1 (Resources g)\<rparr> else g);
                w1 = worker\<lparr>Tier := Tier worker + 1\<rparr>;
                w2 = (if AutoTier (Definition w1) > 0 \<and> Tier w1 \<ge> AutoTier (Definition w1)
                      then w1\<lparr>Auto := True\<rparr> else w1)
            in Some (''upgraded'', set_worker g1 industryIndex workerIndex w2))"

section \<open>Snapshot codec: snapshot, applySnapshot\<close>

definition snapshot_worker :: "WorkerState \<Rightarrow> saveWorker" where
  "snapshot_worker worker =
     \<lparr>sKey = Key (Definition worker), sOwned = Owned worker, sTier = Tier worker,
      sAuto = Auto worker\<rparr>"

definition snapshot_industry :: "IndustryState \<Rightarrow> saveIndustry" where
  "snapshot_industry industry =
     \<lparr>siKey = iKey industry, siWorkers = map snapshot_worker (Workers industry)\<rparr>"

definition snapshot :: "GameState \<Rightarrow> time \<Rightarrow> saveGame" where
  "snapshot g now =
     \<lparr>sIndustries = map snapshot_industry (Industries g),
      sResources = Some (Resources g),
      sProduction = map (\<lambda>entry. \<lparr>sNextAt = NextAt entry\<rparr>) (Production g),
      sBuyModeMax = BuyModeMax g,
      sDevMode = DevMode g,
      SavedAt = now,
      Version = 1\<rparr>"

text \<open>The lookup tables: a later entry with the same key overwrites an earlier one.\<close>

definition industryLookup :: "saveIndustry list \<Rightarrow> (string \<rightharpoonup> saveIndustry)" where
  "industryLookup inds = foldl (\<lambda>m industry. m(siKey industry \<mapsto> industry)) Map.empty inds"

definition workerLookup :: "saveWorker list \<Rightarrow> (string \<rightharpoonup> saveWorker)" where
  "workerLookup ws = foldl (\<lambda>m worker. m(sKey worker \<mapsto> worker)) Map.empty ws"

definition load_worker :: "WorkerState \<Rightarrow> saveWorker \<Rightarrow> WorkerState" where
  "load_worker worker savedWorker =
     worker\<lparr>Owned := sOwned savedWorker,
            Tier := sTier savedWorker,
            Auto := (sAuto savedWorker \<or>
                     (AutoTier (Definition worker) > 0 \<and>
                      sTier savedWorker \<ge> AutoTier (Definition worker))),
            Running := False,
            EndsAt := zeroTime\<rparr>"

text \<open>
  The two nested loops of applySnapshot write into the live state as they go; on a
  missing key they return the error with the writes made so far. Each function returns
  the state it leaves and the error, if any.
\<close>

fun apply_workers :: "(string \<rightharpoonup> saveWorker) \<Rightarrow> WorkerState list \<Rightarrow> WorkerState list \<times> string option" where
  "apply_workers lookup [] = ([], None)"
| "apply_workers lookup (worker # rest) =
     (case lookup (Key (Definition worker)) of
        None \<Rightarrow> (worker # rest, Some (''save missing worker '' @ Key (Definition worker)))
      | Some savedWorker \<Rightarrow>
          (case apply_workers lookup rest of
             (rest', err) \<Rightarrow> (load_worker worker savedWorker # rest', err)))"

fun apply_industries :: "(string \<rightharpoonup> saveIndustry) \<Rightarrow> IndustryState list \<Rightarrow> IndustryState list \<times> string option" where
  "apply_industries lookup [] = ([], None)"
| "apply_industries lookup (industry # rest) =
     (case lookup (iKey industry) of
        None \<Rightarrow> (industry # rest, Some (''save missing industry '' @ iKey industry))
      | Some savedIndustry \<Rightarrow>
          (case apply_workers (workerLookup (siWorkers savedIndustry)) (Workers industry) of
             (ws, Some e) \<Rightarrow> (industry\<lparr>Workers := ws\<rparr> # rest, Some e)
           | (ws, None) \<Rightarrow>
               (case apply_industries lookup rest of
                  (rest', err) \<Rightarrow> (industry\<lparr>Workers := ws\<rparr> # rest', err))))"

fun load_production :: "PassiveProductionState list \<Rightarrow> saveProduction list \<Rightarrow> PassiveProductionState list" where
  "load_production (p # ps) (s # ss) = p\<lparr>NextAt := sNextAt s\<rparr> # load_production ps ss"
| "load_production ps ss = ps"

definition applySnapshot :: "GameState \<Rightarrow> saveGame \<Rightarrow> GameState \<times> string option" where
  "applySnapshot g snap =
     (case sResources snap of
        None \<Rightarrow> (g, Some ''save missing resources'')
      | Some resources \<Rightarrow>
          if length (sIndustries snap) \<noteq> length (Industries g)
          then (g, Some ''save industries mismatch'')
          else if length (sProduction snap) \<noteq> length (Production g)
          then (g, Some ''save production mismatch'')
          else
            (case apply_industries (industryLookup (sIndustries snap)) (Industries g) of
               (inds, Some e) \<Rightarrow> (g\<lparr>Industries := inds\<rparr>, Some e)
             | (inds, None) \<Rightarrow>
                 (g\<lparr>Industries := inds,
                    Resources := resources,
                    Production := load_production (Production g) (sProduction snap),
                    BuyModeMax := sBuyModeMax snap,
                    DevMode := sDevMode snap\<rparr>, None)))"

section \<open>Construction: BuildGame\<close>

fun build_workers :: "nat \<Rightarrow> WorkerConfig list \<Rightarrow> WorkerState list" where
  "build_workers index [] = []"
| "build_workers index (worker # rest) =
     \<lparr>Definition = worker, Owned = (if index = 0 then 1 else 0), Tier = 1,
      Running = False, EndsAt = zeroTime, Auto = False\<rparr> # build_workers (Suc index) rest"

definition build_industry :: "IndustryConfig \<Rightarrow> IndustryState" where
  "build_industry industry =
     \<lparr>iKey = cKey industry, iName = cName industry, iResource = cResource industry,
      Workers = build_workers 0 (cWorkers industry)\<rparr>"

definition buildPassiveProduction :: "time \<Rightarrow> PassiveProductionSpec list \<Rightarrow> PassiveProductionState list" where
  "buildPassiveProduction now definitions =
     map (\<lambda>d. \<lparr>pDefinition = d, NextAt = now + pProdRate d\<rparr>) definitions"

definition BuildGame :: "time \<Rightarrow> GameConfig \<Rightarrow> string + GameState" where
  "BuildGame now cfg =
     (let industries = map build_industry (cIndustries cfg) in
      if length industries > 5 then Inl (''too many industries: '' @ show_int (int (length industries)) @ '' (max 5)'')
      else Inr \<lparr>Industries = industries,
               Resources = StartingResources cfg,
               Production = buildPassiveProduction now (StartingProduction cfg),
               BuyModeMax = False,
               DevMode = False\<rparr>)"

section \<open>Simulation clock: PassiveProductionState.apply, applyProduction, Update, StartRun\<close>

text \<open>
  The catch-up loop \<^verbatim>\<open>for !now.Before(p.NextAt) { ... }\<close> has no bound of its own: it is
  a partial function, and \<open>None\<close> means that it does not return.
\<close>

partial_function (option) apply_loop ::
    "time \<Rightarrow> PassiveProductionState \<Rightarrow> ledger \<Rightarrow> (PassiveProductionState \<times> ledger) option" where
  "apply_loop now p resources =
     (if \<not> now < NextAt p then
        apply_loop now
          (p\<lparr>NextAt := NextAt p + pProdRate (pDefinition p)\<rparr>)
          (resources(pResource (pDefinition p) \<mapsto>
             getR resources (pResource (pDefinition p)) + pProdQuant (pDefinition p)))
      else Some (p, resources))"

definition apply_passive ::
    "time \<Rightarrow> PassiveProductionState \<Rightarrow> ledger \<Rightarrow> (PassiveProductionState \<times> ledger) option" where
  "apply_passive now p resources =
     (if now < NextAt p then Some (p, resources)
      else if pProdRate (pDefinition p) \<le> 0 \<or> pProdQuant (pDefinition p) \<le> 0
      then Some (p, resources)
      else apply_loop now p resources)"







definition StartRun :: "GameState \<Rightarrow> int \<Rightarrow> int \<Rightarrow> time \<Rightarrow> (string \<times> GameState) option" where
  "StartRun g industryIndex workerIndex now =
     (case worker_at g industryIndex workerIndex of
        None \<Rightarrow> None
      | Some worker \<Rightarrow>
          if Owned worker = 0 then Some (''need at least 1 worker'', g)
          else if Running worker then Some (''already running'', g)
          else Some (''cycle started'',
                 set_worker g industryIndex workerIndex
                   (worker\<lparr>Running := True, EndsAt := now + ProdRate (Definition worker)\<rparr>)))"

section \<open>Notions used in the statements\<close>

text \<open>
  The snapshot entry that the lookup tables of applySnapshot hold for a key: the last
  entry of the list with that key.
\<close>

definition saved_industry :: "saveGame \<Rightarrow> string \<Rightarrow> saveIndustry" where
  "saved_industry snap k = last (filter (\<lambda>s. siKey s = k) (sIndustries snap))"

definition saved_worker :: "saveIndustry \<Rightarrow> string \<Rightarrow> saveWorker" where
  "saved_worker si k = last (filter (\<lambda>s. sKey s = k) (siWorkers si))"

text \<open>
  Structural validity of a snapshot for a live state: the resource map is present, the
  industry and production counts agree, every live industry key occurs in the snapshot,
  and every live worker key occurs in the snapshot entry of its industry.
\<close>

definition structurally_valid :: "GameState \<Rightarrow> saveGame \<Rightarrow> bool" where
  "structurally_valid g snap \<longleftrightarrow>
     sResources snap \<noteq> None \<and>
     length (sIndustries snap) = length (Industries g) \<and>
     length (sProduction snap) = length (Production g) \<and>
     (\<forall>industry\<in>set (Industries g).
        iKey industry \<in> siKey ` set (sIndustries snap) \<and>
        (\<forall>worker\<in>set (Workers industry).
           Key (Definition worker) \<in>
             sKey ` set (siWorkers (saved_industry snap (iKey industry)))))"

definition industry_ok :: "(string \<rightharpoonup> saveIndustry) \<Rightarrow> IndustryState \<Rightarrow> bool" where
  "industry_ok lk industry \<longleftrightarrow>
     (\<exists>s. lk (iKey industry) = Some s \<and>
          (\<forall>w\<in>set (Workers industry). workerLookup (siWorkers s) (Key (Definition w)) \<noteq> None))"

definition load_industry :: "(string \<rightharpoonup> saveIndustry) \<Rightarrow> IndustryState \<Rightarrow> IndustryState" where
  "load_industry lk industry =
     industry\<lparr>Workers := map (\<lambda>w. load_worker w
        (the (workerLookup (siWorkers (the (lk (iKey industry)))) (Key (Definition w)))))
        (Workers industry)\<rparr>"

text \<open>Example definitions, states and snapshots used to instantiate the theorems.\<close>

text \<open>
  Floating-point operations that do not round. IEEE arithmetic agrees with them wherever
  the operands and the exact result are representable, as for the small integers and the
  powers of two of the instances below.
\<close>

definition exact_float64 :: float64_ops where
  "exact_float64 =
     \<lparr>float64_of_int = of_int,
      math_Pow = (\<lambda>x y. if 0 \<le> y \<and> y = of_int \<lfloor>y\<rfloor> then x ^ nat \<lfloor>y\<rfloor> else x powr y),
      float64_mul = (\<lambda>x y. x * y),
      math_Ceil = (\<lambda>x. of_int \<lceil>x\<rceil>),
      int_of_float64 = (\<lambda>x. if 0 \<le> x then \<lfloor>x\<rfloor> else \<lceil>x\<rceil>)\<rparr>"

definition demoWorker :: "string \<Rightarrow> int \<Rightarrow> WorkerConfig" where
  "demoWorker k autoTier =
     \<lparr>Key = k, WorkerName = k, Produces = ''coal'', ProdRate = 1000, ProdQuant = 25,
      UpgradeMult = 2, AutoTier = autoTier, Level = 10, Cost = [(''coins'', 10)]\<rparr>"

definition liveTwo :: GameState where
  "liveTwo =
     \<lparr>Industries =
        [\<lparr>iKey = ''coal'', iName = ''Coal'', iResource = ''coal'',
          Workers = [\<lparr>Definition = demoWorker ''miner'' 5, Owned = 1, Tier = 1,
                      Running = True, EndsAt = 500, Auto = False\<rparr>]\<rparr>,
         \<lparr>iKey = ''iron'', iName = ''Iron'', iResource = ''iron'',
          Workers = [\<lparr>Definition = demoWorker ''smelter'' 5, Owned = 2, Tier = 1,
                      Running = False, EndsAt = 0, Auto = False\<rparr>]\<rparr>],
      Resources = [''coins'' \<mapsto> 100], Production = [],
      BuyModeMax = False, DevMode = False\<rparr>"

definition snapMissingWorker :: saveGame where
  "snapMissingWorker =
     \<lparr>sIndustries =
        [\<lparr>siKey = ''coal'', siWorkers = [\<lparr>sKey = ''miner'', sOwned = 7, sTier = 3, sAuto = True\<rparr>]\<rparr>,
         \<lparr>siKey = ''iron'', siWorkers = []\<rparr>],
      sResources = Some [''coins'' \<mapsto> 5], sProduction = [],
      sBuyModeMax = True, sDevMode = False, SavedAt = 0, Version = 1\<rparr>"

definition snapNegative :: saveGame where
  "snapNegative =
     \<lparr>sIndustries =
        [\<lparr>siKey = ''iron'', siWorkers = [\<lparr>sKey = ''smelter'', sOwned = 4, sTier = 2, sAuto = False\<rparr>]\<rparr>,
         \<lparr>siKey = ''coal'', siWorkers = [\<lparr>sKey = ''miner'', sOwned = - 3, sTier = 0, sAuto = False\<rparr>]\<rparr>],
      sResources = Some [''coins'' \<mapsto> - 5], sProduction = [],
      sBuyModeMax = True, sDevMode = False, SavedAt = 0, Version = 1\<rparr>"

definition autoOneConfig :: GameConfig where
  "autoOneConfig =
     \<lparr>StartingResources = [''coins'' \<mapsto> 50], StartingProduction = [],
      cIndustries = [\<lparr>cKey = ''coal'', cName = ''Coal'', cResource = ''coal'',
                      cWorkers = [demoWorker ''miner'' 1]\<rparr>]\<rparr>"

definition autoOneGame :: GameState where
  "autoOneGame =
     \<lparr>Industries =
        [\<lparr>iKey = ''coal'', iName = ''Coal'', iResource = ''coal'',
          Workers = [\<lparr>Definition = demoWorker ''miner'' 1, Owned = 1, Tier = 1,
                      Running = False, EndsAt = zeroTime, Auto = False\<rparr>]\<rparr>],
      Resources = [''coins'' \<mapsto> 50], Production = [],
      BuyModeMax = False, DevMode = False\<rparr>"

definition autoGame :: GameState where
  "autoGame =
     \<lparr>Industries =
        [\<lparr>iKey = ''coal'', iName = ''Coal'', iResource = ''coal'',
          Workers = [\<lparr>Definition = demoWorker ''miner'' 5, Owned = 3, Tier = 5,
                      Running = False, EndsAt = zeroTime, Auto = True\<rparr>]\<rparr>],
      Resources = [''coins'' \<mapsto> 1000], Production = [],
      BuyModeMax = False, DevMode = False\<rparr>"

definition snapLowTier :: saveGame where
  "snapLowTier =
     \<lparr>sIndustries =
        [\<lparr>siKey = ''coal'', siWorkers = [\<lparr>sKey = ''miner'', sOwned = 1, sTier = 1, sAuto = False\<rparr>]\<rparr>],
      sResources = Some [''coins'' \<mapsto> 5], sProduction = [],
      sBuyModeMax = False, sDevMode = False, SavedAt = 0, Version = 1\<rparr>"

definition snapHighTier :: saveGame where
  "snapHighTier =
     \<lparr>sIndustries =
        [\<lparr>siKey = ''coal'', siWorkers = [\<lparr>sKey = ''miner'', sOwned = 1, sTier = 6, sAuto = False\<rparr>]\<rparr>],
      sResources = Some [''coins'' \<mapsto> 5], sProduction = [],
      sBuyModeMax = False, sDevMode = False, SavedAt = 0, Version = 1\<rparr>"

text \<open>
  A live state and a saved state of the same configuration: the same industry keys in the
  same order, the same worker definitions in each industry, and as many passive producers.
\<close>

definition same_configuration :: "GameState \<Rightarrow> GameState \<Rightarrow> bool" where
  "same_configuration g0 g \<longleftrightarrow>
     map iKey (Industries g0) = map iKey (Industries g) \<and>
     map (\<lambda>industry. map Definition (Workers industry)) (Industries g0) =
       map (\<lambda>industry. map Definition (Workers industry)) (Industries g) \<and>
     length (Production g0) = length (Production g)"

definition keys_distinct :: "GameState \<Rightarrow> bool" where
  "keys_distinct g \<longleftrightarrow>
     distinct (map iKey (Industries g)) \<and>
     (\<forall>industry\<in>set (Industries g).
        distinct (map (\<lambda>w. Key (Definition w)) (Workers industry)))"

definition passiveSpec :: PassiveProductionSpec where
  "passiveSpec = \<lparr>pResource = ''coins'', pProdRate = 1000, pProdQuant = 5\<rparr>"

definition liveProd :: GameState where
  "liveProd =
     \<lparr>Industries =
        [\<lparr>iKey = ''coal'', iName = ''Coal'', iResource = ''coal'',
          Workers = [\<lparr>Definition = demoWorker ''miner'' 5, Owned = 9, Tier = 6,
                      Running = True, EndsAt = 4500, Auto = True\<rparr>,
                     \<lparr>Definition = demoWorker ''driller'' 2, Owned = 4, Tier = 1,
                      Running = False, EndsAt = 0, Auto = False\<rparr>]\<rparr>],
      Resources = [''coins'' \<mapsto> 3, ''coal'' \<mapsto> 250],
      Production = [\<lparr>pDefinition = passiveSpec, NextAt = 5000\<rparr>],
      BuyModeMax = False, DevMode = False\<rparr>"

definition savedProd :: GameState where
  "savedProd =
     \<lparr>Industries =
        [\<lparr>iKey = ''coal'', iName = ''Coal'', iResource = ''coal'',
          Workers = [\<lparr>Definition = demoWorker ''miner'' 5, Owned = 2, Tier = 3,
                      Running = True, EndsAt = 1200, Auto = False\<rparr>,
                     \<lparr>Definition = demoWorker ''driller'' 2, Owned = 1, Tier = 2,
                      Running = False, EndsAt = 0, Auto = False\<rparr>]\<rparr>],
      Resources = [''coins'' \<mapsto> 40],
      Production = [\<lparr>pDefinition = passiveSpec, NextAt = 2000\<rparr>],
      BuyModeMax = True, DevMode = True\<rparr>"

definition twinConfig :: GameConfig where
  "twinConfig =
     \<lparr>StartingResources = [''coins'' \<mapsto> 50], StartingProduction = [],
      cIndustries = [\<lparr>cKey = ''coal'', cName = ''Coal'', cResource = ''coal'',
                      cWorkers = [demoWorker ''miner'' 5, demoWorker ''miner'' 5]\<rparr>]\<rparr>"

definition twinGame :: GameState where
  "twinGame =
     \<lparr>Industries =
        [\<lparr>iKey = ''coal'', iName = ''Coal'', iResource = ''coal'',
          Workers = [\<lparr>Definition = demoWorker ''miner'' 5, Owned = 1, Tier = 1,
                      Running = False, EndsAt = zeroTime, Auto = False\<rparr>,
                     \<lparr>Definition = demoWorker ''miner'' 5, Owned = 0, Tier = 1,
                      Running = False, EndsAt = zeroTime, Auto = False\<rparr>]\<rparr>],
      Resources = [''coins'' \<mapsto> 50], Production = [],
      BuyModeMax = False, DevMode = False\<rparr>"

definition shopGame :: "cost \<Rightarrow> ledger \<Rightarrow> bool \<Rightarrow> bool \<Rightarrow> GameState" where
  "shopGame c res buyMax dev =
     \<lparr>Industries =
        [\<lparr>iKey = ''coal'', iName = ''Coal'', iResource = ''coal'',
          Workers = [\<lparr>Definition = (demoWorker ''miner'' 5)\<lparr>Cost := c\<rparr>, Owned = 1, Tier = 1,
                      Running = False, EndsAt = zeroTime, Auto = False\<rparr>]\<rparr>],
      Resources = res, Production = [], BuyModeMax = buyMax, DevMode = dev\<rparr>"

definition mixedCost :: cost where
  "mixedCost = [(''coins'', 10), (''wood'', 3), (''gems'', 0)]"




section \<open>Properties\<close>

lemma getR_upd: "getR (m(k \<mapsto> v)) k' = (if k' = k then v else getR m k')"
  by (simp add: getR_def)

subsection \<open>The lookup tables and the loops of applySnapshot\<close>


lemma foldl_lookup:
  "foldl (\<lambda>m x. m(f x \<mapsto> x)) m0 xs k =
     (if filter (\<lambda>x. f x = k) xs = [] then m0 k else Some (last (filter (\<lambda>x. f x = k) xs)))"
  by (induction xs arbitrary: m0) auto

lemma industryLookup_last:
  "industryLookup inds k =
     (if filter (\<lambda>s. siKey s = k) inds = [] then None
      else Some (last (filter (\<lambda>s. siKey s = k) inds)))"
  unfolding industryLookup_def by (simp add: foldl_lookup)

lemma workerLookup_last:
  "workerLookup ws k =
     (if filter (\<lambda>s. sKey s = k) ws = [] then None
      else Some (last (filter (\<lambda>s. sKey s = k) ws)))"
  unfolding workerLookup_def by (simp add: foldl_lookup)

lemma filter_distinct_key:
  "distinct (map f xs) \<Longrightarrow> x \<in> set xs \<Longrightarrow> filter (\<lambda>y. f y = f x) xs = [x]"
proof (induction xs)
  case Nil
  then show ?case by simp
next
  case (Cons a xs)
  show ?case
  proof (cases "a = x")
    case True
    with Cons.prems have "f x \<notin> f ` set xs" by simp
    then have "\<forall>y\<in>set xs. f y \<noteq> f x" by (metis image_eqI)
    then have "filter (\<lambda>y. f y = f x) xs = []" by (simp add: filter_empty_conv)
    with True show ?thesis by simp
  next
    case False
    with Cons.prems have "x \<in> set xs" "f a \<noteq> f x" by auto
    with Cons show ?thesis by simp
  qed
qed

lemma apply_workers_ok:
  "snd (apply_workers lk ws) = None \<longleftrightarrow> (\<forall>w\<in>set ws. lk (Key (Definition w)) \<noteq> None)"
  by (induction ws) (auto split: option.splits prod.splits)

lemma apply_workers_result:
  "\<forall>w\<in>set ws. lk (Key (Definition w)) \<noteq> None \<Longrightarrow>
   apply_workers lk ws = (map (\<lambda>w. load_worker w (the (lk (Key (Definition w))))) ws, None)"
  by (induction ws) (auto split: option.splits prod.splits)

lemma apply_industries_ok:
  "snd (apply_industries lk inds) = None \<longleftrightarrow> (\<forall>industry\<in>set inds. industry_ok lk industry)"
proof (induction inds)
  case Nil
  then show ?case by simp
next
  case (Cons a inds)
  show ?case
  proof (cases "lk (iKey a)")
    case None
    then show ?thesis by (simp add: industry_ok_def)
  next
    case (Some s)
    show ?thesis
    proof (cases "\<forall>w\<in>set (Workers a). workerLookup (siWorkers s) (Key (Definition w)) \<noteq> None")
      case True
      then have "apply_workers (workerLookup (siWorkers s)) (Workers a) =
        (map (\<lambda>w. load_worker w (the (workerLookup (siWorkers s) (Key (Definition w))))) (Workers a), None)"
        by (rule apply_workers_result)
      with Some True Cons show ?thesis
        by (cases "apply_industries lk inds") (simp add: industry_ok_def)
    next
      case False
      then have "snd (apply_workers (workerLookup (siWorkers s)) (Workers a)) \<noteq> None"
        by (simp add: apply_workers_ok)
      with Some False show ?thesis
        by (auto simp: industry_ok_def split: prod.splits option.splits)
    qed
  qed
qed

lemma apply_industries_result:
  "\<forall>industry\<in>set inds. industry_ok lk industry \<Longrightarrow>
   apply_industries lk inds = (map (load_industry lk) inds, None)"
proof (induction inds)
  case Nil
  then show ?case by simp
next
  case (Cons a inds)
  from Cons.prems obtain s where s: "lk (iKey a) = Some s"
    and ws: "\<forall>w\<in>set (Workers a). workerLookup (siWorkers s) (Key (Definition w)) \<noteq> None"
    by (auto simp: industry_ok_def)
  from ws have "apply_workers (workerLookup (siWorkers s)) (Workers a) =
        (map (\<lambda>w. load_worker w (the (workerLookup (siWorkers s) (Key (Definition w))))) (Workers a), None)"
    by (rule apply_workers_result)
  with s Cons show ?case
    by (simp add: load_industry_def)
qed

lemma filter_key_empty: "filter (\<lambda>s. f s = k) xs = [] \<longleftrightarrow> k \<notin> f ` set xs"
  by (auto simp: filter_empty_conv)

lemma industryLookup_None: "industryLookup inds k = None \<longleftrightarrow> k \<notin> siKey ` set inds"
  by (simp add: industryLookup_last filter_key_empty)

lemma workerLookup_None: "workerLookup ws k = None \<longleftrightarrow> k \<notin> sKey ` set ws"
  by (simp add: workerLookup_last filter_key_empty)

lemma lookup_saved_industry:
  "k \<in> siKey ` set (sIndustries snap) \<Longrightarrow>
   industryLookup (sIndustries snap) k = Some (saved_industry snap k)"
  by (simp add: industryLookup_last saved_industry_def filter_key_empty)

lemma lookup_saved_worker:
  "k \<in> sKey ` set (siWorkers si) \<Longrightarrow> workerLookup (siWorkers si) k = Some (saved_worker si k)"
  by (simp add: workerLookup_last saved_worker_def filter_key_empty)

lemma industry_ok_iff:
  "industry_ok (industryLookup (sIndustries snap)) industry \<longleftrightarrow>
     iKey industry \<in> siKey ` set (sIndustries snap) \<and>
     (\<forall>worker\<in>set (Workers industry).
        Key (Definition worker) \<in> sKey ` set (siWorkers (saved_industry snap (iKey industry))))"
proof (cases "iKey industry \<in> siKey ` set (sIndustries snap)")
  case True
  then show ?thesis
    by (simp add: industry_ok_def lookup_saved_industry workerLookup_None)
next
  case False
  then have "industryLookup (sIndustries snap) (iKey industry) = None"
    by (simp add: industryLookup_None)
  with False show ?thesis
    by (simp add: industry_ok_def)
qed

lemma applySnapshot_ok_iff:
  "snd (applySnapshot g snap) = None \<longleftrightarrow> structurally_valid g snap"
proof (cases "sResources snap = None \<or> length (sIndustries snap) \<noteq> length (Industries g)
    \<or> length (sProduction snap) \<noteq> length (Production g)")
  case True
  then show ?thesis
    by (auto simp: applySnapshot_def structurally_valid_def split: option.splits)
next
  case False
  then obtain res where res: "sResources snap = Some res" by auto
  have "snd (applySnapshot g snap) = None \<longleftrightarrow>
        snd (apply_industries (industryLookup (sIndustries snap)) (Industries g)) = None"
    using False res
    by (cases "apply_industries (industryLookup (sIndustries snap)) (Industries g)")
       (auto simp: applySnapshot_def split: option.splits)
  also have "\<dots> \<longleftrightarrow> (\<forall>industry\<in>set (Industries g).
        industry_ok (industryLookup (sIndustries snap)) industry)"
    by (rule apply_industries_ok)
  finally show ?thesis
    using False res by (simp add: structurally_valid_def industry_ok_iff)
qed

lemma applySnapshot_success:
  assumes "structurally_valid g snap"
  shows "applySnapshot g snap =
    (g\<lparr>Industries := map (load_industry (industryLookup (sIndustries snap))) (Industries g),
       Resources := the (sResources snap),
       Production := load_production (Production g) (sProduction snap),
       BuyModeMax := sBuyModeMax snap,
       DevMode := sDevMode snap\<rparr>, None)"
proof -
  from assms have "\<forall>industry\<in>set (Industries g).
      industry_ok (industryLookup (sIndustries snap)) industry"
    by (simp add: structurally_valid_def industry_ok_iff)
  then have "apply_industries (industryLookup (sIndustries snap)) (Industries g) =
      (map (load_industry (industryLookup (sIndustries snap))) (Industries g), None)"
    by (rule apply_industries_result)
  with assms show ?thesis
    by (auto simp: applySnapshot_def structurally_valid_def)
qed

lemma loaded_worker:
  assumes v: "structurally_valid g snap"
    and i: "i < length (Industries g)" and j: "j < length (Workers (Industries g ! i))"
  shows "Workers (Industries (fst (applySnapshot g snap)) ! i) ! j =
     load_worker (Workers (Industries g ! i) ! j)
       (saved_worker (saved_industry snap (iKey (Industries g ! i)))
          (Key (Definition (Workers (Industries g ! i) ! j))))"
proof -
  let ?ind = "Industries g ! i"
  let ?w = "Workers ?ind ! j"
  from i have m: "?ind \<in> set (Industries g)" by simp
  from j have mw: "?w \<in> set (Workers ?ind)" by simp
  from v m have k: "iKey ?ind \<in> siKey ` set (sIndustries snap)"
    and kw: "\<forall>worker\<in>set (Workers ?ind). Key (Definition worker) \<in>
             sKey ` set (siWorkers (saved_industry snap (iKey ?ind)))"
    unfolding structurally_valid_def by blast+
  from kw mw have kw': "Key (Definition ?w) \<in> sKey ` set (siWorkers (saved_industry snap (iKey ?ind)))"
    by blast
  show ?thesis
    using i j by (simp add: applySnapshot_success [OF v] load_industry_def
        lookup_saved_industry [OF k] lookup_saved_worker [OF kw'])
qed

text \<open>
  C10. applySnapshot succeeds exactly when the snapshot is structurally valid: the
  resource map is present, the industry and production counts equal the live ones, and
  every live industry key and every live worker key is found in the snapshot (a worker
  key in the entry the lookup table holds for its industry). There is no validation of
  the values: on success every worker has the recorded owned-count and tier, and the
  ledger is the recorded resource map, whatever the recorded numbers are.
\<close>

theorem applySnapshot_succeeds_iff:
  "(snd (applySnapshot g snap) = None \<longleftrightarrow> structurally_valid g snap) \<and>
   (structurally_valid g snap \<longrightarrow>
      Resources (fst (applySnapshot g snap)) = the (sResources snap) \<and>
      length (Industries (fst (applySnapshot g snap))) = length (Industries g) \<and>
      (\<forall>i<length (Industries g).
         length (Workers (Industries (fst (applySnapshot g snap)) ! i)) =
           length (Workers (Industries g ! i)) \<and>
         (\<forall>j<length (Workers (Industries g ! i)).
            Owned (Workers (Industries (fst (applySnapshot g snap)) ! i) ! j) =
              sOwned (saved_worker (saved_industry snap (iKey (Industries g ! i)))
                        (Key (Definition (Workers (Industries g ! i) ! j)))) \<and>
            Tier (Workers (Industries (fst (applySnapshot g snap)) ! i) ! j) =
              sTier (saved_worker (saved_industry snap (iKey (Industries g ! i)))
                        (Key (Definition (Workers (Industries g ! i) ! j)))))))"
proof (intro conjI impI allI)
  show "snd (applySnapshot g snap) = None \<longleftrightarrow> structurally_valid g snap"
    by (rule applySnapshot_ok_iff)
next
  assume v: "structurally_valid g snap"
  show "Resources (fst (applySnapshot g snap)) = the (sResources snap)"
    by (simp add: applySnapshot_success [OF v])
  show "length (Industries (fst (applySnapshot g snap))) = length (Industries g)"
    by (simp add: applySnapshot_success [OF v])
next
  fix i
  assume v: "structurally_valid g snap" and i: "i < length (Industries g)"
  then show "length (Workers (Industries (fst (applySnapshot g snap)) ! i)) =
           length (Workers (Industries g ! i))"
    by (simp add: applySnapshot_success [OF v] load_industry_def)
next
  fix i j
  assume v: "structurally_valid g snap" and i: "i < length (Industries g)"
    and j: "j < length (Workers (Industries g ! i))"
  show "Owned (Workers (Industries (fst (applySnapshot g snap)) ! i) ! j) =
              sOwned (saved_worker (saved_industry snap (iKey (Industries g ! i)))
                        (Key (Definition (Workers (Industries g ! i) ! j))))"
    by (simp add: loaded_worker [OF v i j] load_worker_def)
  show "Tier (Workers (Industries (fst (applySnapshot g snap)) ! i) ! j) =
              sTier (saved_worker (saved_industry snap (iKey (Industries g ! i)))
                        (Key (Definition (Workers (Industries g ! i) ! j))))"
    by (simp add: loaded_worker [OF v i j] load_worker_def)
qed

text \<open>
  C1 (the code does not do what the claim says). The claim: when applySnapshot returns a
  validation error, the live state is unchanged. Here the snapshot has both industries,
  but the entry of the second one lacks the worker "smelter": applySnapshot reports the
  missing worker after it has already overwritten the worker of the first industry
  (owned 1 to 7, tier 1 to 3, auto set, running cleared).
\<close>

theorem applySnapshot_partial_write:
  "snd (applySnapshot liveTwo snapMissingWorker) = Some ''save missing worker smelter'' \<and>
   fst (applySnapshot liveTwo snapMissingWorker) \<noteq> liveTwo \<and>
   Workers (Industries liveTwo ! 0) ! 0 =
     \<lparr>Definition = demoWorker ''miner'' 5, Owned = 1, Tier = 1,
      Running = True, EndsAt = 500, Auto = False\<rparr> \<and>
   Workers (Industries (fst (applySnapshot liveTwo snapMissingWorker)) ! 0) ! 0 =
     \<lparr>Definition = demoWorker ''miner'' 5, Owned = 7, Tier = 3,
      Running = False, EndsAt = zeroTime, Auto = True\<rparr> \<and>
   Resources (fst (applySnapshot liveTwo snapMissingWorker)) = Resources liveTwo"
proof -
  have r: "applySnapshot liveTwo snapMissingWorker =
     (liveTwo\<lparr>Industries :=
        [\<lparr>iKey = ''coal'', iName = ''Coal'', iResource = ''coal'',
          Workers = [\<lparr>Definition = demoWorker ''miner'' 5, Owned = 7, Tier = 3,
                      Running = False, EndsAt = zeroTime, Auto = True\<rparr>]\<rparr>,
         \<lparr>iKey = ''iron'', iName = ''Iron'', iResource = ''iron'',
          Workers = [\<lparr>Definition = demoWorker ''smelter'' 5, Owned = 2, Tier = 1,
                      Running = False, EndsAt = 0, Auto = False\<rparr>]\<rparr>]\<rparr>,
      Some ''save missing worker smelter'')"
    by (simp add: applySnapshot_def liveTwo_def snapMissingWorker_def industryLookup_def
        workerLookup_def load_worker_def demoWorker_def)
  have n: "Industries (fst (applySnapshot liveTwo snapMissingWorker)) \<noteq> Industries liveTwo"
    by (simp add: r) (simp add: liveTwo_def)
  then have "fst (applySnapshot liveTwo snapMissingWorker) \<noteq> liveTwo"
    by auto
  then show ?thesis
    by (simp add: r) (simp add: liveTwo_def)
qed

text \<open>
  An instance: a snapshot whose industries come in another order and which records a
  negative owned-count, the tier 0 and a negative balance is structurally valid, and
  these values are in the live state after the load.
\<close>

theorem applySnapshot_succeeds_iff_witness:
  "structurally_valid liveTwo snapNegative \<and>
   snd (applySnapshot liveTwo snapNegative) = None \<and>
   Resources (fst (applySnapshot liveTwo snapNegative)) ''coins'' = Some (- 5) \<and>
   Owned (Workers (Industries (fst (applySnapshot liveTwo snapNegative)) ! 0) ! 0) = - 3 \<and>
   Tier (Workers (Industries (fst (applySnapshot liveTwo snapNegative)) ! 0) ! 0) = 0"
proof -
  have si: "saved_industry snapNegative ''coal'' =
      \<lparr>siKey = ''coal'', siWorkers = [\<lparr>sKey = ''miner'', sOwned = - 3, sTier = 0, sAuto = False\<rparr>]\<rparr>"
    "saved_industry snapNegative ''iron'' =
      \<lparr>siKey = ''iron'', siWorkers = [\<lparr>sKey = ''smelter'', sOwned = 4, sTier = 2, sAuto = False\<rparr>]\<rparr>"
    by (simp_all add: saved_industry_def snapNegative_def)
  have v: "structurally_valid liveTwo snapNegative"
    unfolding structurally_valid_def
    by (simp add: si liveTwo_def demoWorker_def) (simp add: snapNegative_def)
  note t = applySnapshot_succeeds_iff [of liveTwo snapNegative]
  from t v have ok: "snd (applySnapshot liveTwo snapNegative) = None"
    by blast
  from t v have res: "Resources (fst (applySnapshot liveTwo snapNegative)) = the (sResources snapNegative)"
    by blast
  have len: "0 < length (Industries liveTwo)" "0 < length (Workers (Industries liveTwo ! 0))"
    by (simp_all add: liveTwo_def)
  from t v len have
    "Owned (Workers (Industries (fst (applySnapshot liveTwo snapNegative)) ! 0) ! 0) =
       sOwned (saved_worker (saved_industry snapNegative (iKey (Industries liveTwo ! 0)))
          (Key (Definition (Workers (Industries liveTwo ! 0) ! 0))))"
    "Tier (Workers (Industries (fst (applySnapshot liveTwo snapNegative)) ! 0) ! 0) =
       sTier (saved_worker (saved_industry snapNegative (iKey (Industries liveTwo ! 0)))
          (Key (Definition (Workers (Industries liveTwo ! 0) ! 0))))"
    by blast+
  moreover have "saved_worker (saved_industry snapNegative (iKey (Industries liveTwo ! 0)))
          (Key (Definition (Workers (Industries liveTwo ! 0) ! 0))) =
        \<lparr>sKey = ''miner'', sOwned = - 3, sTier = 0, sAuto = False\<rparr>"
    by (simp add: liveTwo_def demoWorker_def si saved_worker_def)
  ultimately show ?thesis
    using v ok res by (simp add: snapNegative_def)
qed

subsection \<open>The auto flag under UpgradeWorker and under a load\<close>

lemma worker_at_Some:
  "worker_at g i j = Some w \<longleftrightarrow>
     0 \<le> i \<and> nat i < length (Industries g) \<and> 0 \<le> j \<and>
     nat j < length (Workers (Industries g ! nat i)) \<and>
     w = Workers (Industries g ! nat i) ! nat j"
  by (auto simp: worker_at_def Let_def)

lemma set_worker_Industries:
  "Industries (set_worker g i j w) =
     (Industries g)[nat i := (Industries g ! nat i)\<lparr>Workers := (Workers (Industries g ! nat i))[nat j := w]\<rparr>]"
  by (simp add: set_worker_def Let_def)

lemma set_worker_other [simp]:
  "Resources (set_worker g i j w) = Resources g"
  "Production (set_worker g i j w) = Production g"
  "BuyModeMax (set_worker g i j w) = BuyModeMax g"
  "DevMode (set_worker g i j w) = DevMode g"
  by (simp_all add: set_worker_def Let_def)

lemma set_worker_nth:
  assumes "a < length (Industries g)"
  shows "Workers (Industries (set_worker g i j w) ! a) =
     (if a = nat i then (Workers (Industries g ! a))[nat j := w] else Workers (Industries g ! a))"
  using assms by (simp add: set_worker_Industries nth_list_update)

lemma UpgradeWorker_cases:
  assumes "UpgradeWorker fl g i j = Some (st, g')"
  obtains (fail) "g' = g"
  | (ok) w res w' where "worker_at g i j = Some w"
      "g' = set_worker (g\<lparr>Resources := res\<rparr>) i j w'" "Tier w' = Tier w + 1"
      "Auto w \<longrightarrow> Auto w'" "Definition w' = Definition w" "Owned w' = Owned w"
proof -
  from assms obtain w where w: "worker_at g i j = Some w"
    by (auto simp: UpgradeWorker_def split: option.splits)
  show thesis
  proof (cases "\<not> DevMode g \<and> \<not> canAfford (scaledCost fl (Cost (Definition w)) (UpgradeMult (Definition w)) (Tier w)) (Resources g)")
    case True
    with assms w have "g' = g" by (auto simp: UpgradeWorker_def Let_def)
    then show thesis by (rule fail)
  next
    case False
    let ?c = "scaledCost fl (Cost (Definition w)) (UpgradeMult (Definition w)) (Tier w)"
    let ?res = "if \<not> DevMode g then debit ?c 1 (Resources g) else Resources g"
    let ?w1 = "w\<lparr>Tier := Tier w + 1\<rparr>"
    let ?w2 = "if AutoTier (Definition ?w1) > 0 \<and> Tier ?w1 \<ge> AutoTier (Definition ?w1)
               then ?w1\<lparr>Auto := True\<rparr> else ?w1"
    from False assms w have "g' = set_worker (g\<lparr>Resources := ?res\<rparr>) i j ?w2"
      by (auto simp: UpgradeWorker_def Let_def)
    then show thesis
      by (rule ok [OF w]) auto
  qed
qed

text \<open>
  C5 (amended). Across UpgradeWorker the auto flag of no worker goes from true to false.
  A successful load does not look at the live flag: it sets the flag of every worker to
  the recorded flag or the latch condition on the recorded tier (auto-tier threshold
  positive and reached), so a flag that is true stays true exactly when the snapshot
  records it or records a tier that reaches the threshold.
\<close>

theorem auto_flag_upgrade_and_load:
  "(UpgradeWorker fl g i j = Some (st, g') \<longrightarrow>
      length (Industries g') = length (Industries g) \<and>
      (\<forall>a<length (Industries g).
         length (Workers (Industries g' ! a)) = length (Workers (Industries g ! a)) \<and>
         (\<forall>b<length (Workers (Industries g ! a)).
            Auto (Workers (Industries g ! a) ! b) \<longrightarrow> Auto (Workers (Industries g' ! a) ! b)))) \<and>
   (snd (applySnapshot g snap) = None \<longrightarrow>
      (\<forall>a<length (Industries g). \<forall>b<length (Workers (Industries g ! a)).
         Auto (Workers (Industries (fst (applySnapshot g snap)) ! a) ! b) =
           (sAuto (saved_worker (saved_industry snap (iKey (Industries g ! a)))
                     (Key (Definition (Workers (Industries g ! a) ! b)))) \<or>
            (0 < AutoTier (Definition (Workers (Industries g ! a) ! b)) \<and>
             AutoTier (Definition (Workers (Industries g ! a) ! b)) \<le>
               sTier (saved_worker (saved_industry snap (iKey (Industries g ! a)))
                        (Key (Definition (Workers (Industries g ! a) ! b))))))))"
proof (intro conjI impI allI)
  assume u: "UpgradeWorker fl g i j = Some (st, g')"
  then show "length (Industries g') = length (Industries g)"
    by (cases rule: UpgradeWorker_cases) (simp_all add: set_worker_Industries)
next
  fix a
  assume u: "UpgradeWorker fl g i j = Some (st, g')" and a: "a < length (Industries g)"
  from u a show "length (Workers (Industries g' ! a)) = length (Workers (Industries g ! a))"
    by (cases rule: UpgradeWorker_cases) (simp_all add: set_worker_nth)
next
  fix a b
  assume u: "UpgradeWorker fl g i j = Some (st, g')" and a: "a < length (Industries g)"
    and b: "b < length (Workers (Industries g ! a))"
    and t: "Auto (Workers (Industries g ! a) ! b)"
  from u show "Auto (Workers (Industries g' ! a) ! b)"
  proof (cases rule: UpgradeWorker_cases)
    case fail
    with t show ?thesis by simp
  next
    case (ok w res w')
    from ok(1) have w: "w = Workers (Industries g ! nat i) ! nat j"
      by (simp add: worker_at_Some)
    show ?thesis
    proof (cases "a = nat i \<and> b = nat j")
      case True
      with ok(2,4) a b t w show ?thesis
        by (simp add: set_worker_nth)
    next
      case False
      with ok(2) a b t show ?thesis
        by (auto simp: set_worker_nth nth_list_update)
    qed
  qed
next
  fix a b
  assume s: "snd (applySnapshot g snap) = None" and a: "a < length (Industries g)"
    and b: "b < length (Workers (Industries g ! a))"
  from s have v: "structurally_valid g snap"
    by (simp add: applySnapshot_ok_iff)
  show "Auto (Workers (Industries (fst (applySnapshot g snap)) ! a) ! b) =
           (sAuto (saved_worker (saved_industry snap (iKey (Industries g ! a)))
                     (Key (Definition (Workers (Industries g ! a) ! b)))) \<or>
            (0 < AutoTier (Definition (Workers (Industries g ! a) ! b)) \<and>
             AutoTier (Definition (Workers (Industries g ! a) ! b)) \<le>
               sTier (saved_worker (saved_industry snap (iKey (Industries g ! a)))
                        (Key (Definition (Workers (Industries g ! a) ! b))))))"
    by (simp add: loaded_worker [OF v a b] load_worker_def)
qed

text \<open>
  The claim as stated fails: the worker has the auto flag (tier 5, threshold 5); the
  snapshot records tier 1 and no auto flag; the load succeeds and the flag is false.
\<close>

theorem auto_flag_cleared_by_load_counterexample:
  "snd (applySnapshot autoGame snapLowTier) = None \<and>
   Auto (Workers (Industries autoGame ! 0) ! 0) \<and>
   \<not> Auto (Workers (Industries (fst (applySnapshot autoGame snapLowTier)) ! 0) ! 0)"
  by (simp add: applySnapshot_def autoGame_def snapLowTier_def industryLookup_def
      workerLookup_def load_worker_def demoWorker_def)

text \<open>
  An instance: upgrading the worker whose flag is set keeps the flag, and so does loading
  a snapshot that records no flag but a tier above the threshold.
\<close>

theorem auto_flag_upgrade_and_load_witness:
  "fst (the (UpgradeWorker exact_float64 autoGame 0 0)) = ''upgraded'' \<and>
   Auto (Workers (Industries autoGame ! 0) ! 0) \<and>
   Auto (Workers (Industries (snd (the (UpgradeWorker exact_float64 autoGame 0 0))) ! 0) ! 0) \<and>
   snd (applySnapshot autoGame snapHighTier) = None \<and>
   Auto (Workers (Industries (fst (applySnapshot autoGame snapHighTier)) ! 0) ! 0)"
proof -
  have u: "\<exists>g'. UpgradeWorker exact_float64 autoGame 0 0 = Some (''upgraded'', g')"
    by (simp add: UpgradeWorker_def autoGame_def worker_at_def demoWorker_def
        scaledCost_def exact_float64_def maxInt_def getR_def Let_def)
  then obtain g' where g': "UpgradeWorker exact_float64 autoGame 0 0 = Some (''upgraded'', g')" ..
  have s: "snd (applySnapshot autoGame snapHighTier) = None"
    by (simp add: applySnapshot_def autoGame_def snapHighTier_def industryLookup_def
        workerLookup_def demoWorker_def)
  have l: "0 < length (Industries autoGame)" "0 < length (Workers (Industries autoGame ! 0))"
    and a: "Auto (Workers (Industries autoGame ! 0) ! 0)"
    by (simp_all add: autoGame_def)
  note t = auto_flag_upgrade_and_load [of exact_float64 autoGame 0 0 "''upgraded''" g' snapHighTier]
  from t g' l a have 1: "Auto (Workers (Industries g' ! 0) ! 0)"
    by blast
  from t s l have "Auto (Workers (Industries (fst (applySnapshot autoGame snapHighTier)) ! 0) ! 0) =
      (sAuto (saved_worker (saved_industry snapHighTier (iKey (Industries autoGame ! 0)))
                     (Key (Definition (Workers (Industries autoGame ! 0) ! 0)))) \<or>
            (0 < AutoTier (Definition (Workers (Industries autoGame ! 0) ! 0)) \<and>
             AutoTier (Definition (Workers (Industries autoGame ! 0) ! 0)) \<le>
               sTier (saved_worker (saved_industry snapHighTier (iKey (Industries autoGame ! 0)))
                        (Key (Definition (Workers (Industries autoGame ! 0) ! 0))))))"
    by blast
  then have 2: "Auto (Workers (Industries (fst (applySnapshot autoGame snapHighTier)) ! 0) ! 0)"
    by (simp add: autoGame_def snapHighTier_def saved_industry_def saved_worker_def demoWorker_def)
  from 1 2 s a g' show ?thesis
    by simp
qed

subsection \<open>Save then load\<close>

lemma last_filter_distinct:
  assumes "distinct (map f xs)" and "i < length xs"
  shows "last (filter (\<lambda>y. f y = f (xs ! i)) xs) = xs ! i"
  using filter_distinct_key [OF assms(1), of "xs ! i"] assms(2) by simp

lemma saved_industry_snapshot:
  assumes "distinct (map iKey (Industries g))" and "i < length (Industries g)"
  shows "saved_industry (snapshot g now) (iKey (Industries g ! i)) =
         snapshot_industry (Industries g ! i)"
proof -
  have k: "\<And>v. siKey (snapshot_industry v) = iKey v"
    by (simp add: snapshot_industry_def)
  let ?xs = "map snapshot_industry (Industries g)"
  from assms(1) have d: "distinct (map siKey ?xs)"
    by (simp add: comp_def k)
  from assms(2) have l: "i < length ?xs" by simp
  from last_filter_distinct [OF d l] assms(2) show ?thesis
    by (simp add: saved_industry_def snapshot_def k)
qed

lemma saved_worker_snapshot:
  assumes "distinct (map (\<lambda>w. Key (Definition w)) (Workers industry))"
    and "j < length (Workers industry)"
  shows "saved_worker (snapshot_industry industry) (Key (Definition (Workers industry ! j))) =
         snapshot_worker (Workers industry ! j)"
proof -
  have k: "\<And>v. sKey (snapshot_worker v) = Key (Definition v)"
    by (simp add: snapshot_worker_def)
  let ?xs = "map snapshot_worker (Workers industry)"
  from assms(1) have d: "distinct (map sKey ?xs)"
    by (simp add: comp_def k)
  from assms(2) have l: "j < length ?xs" by simp
  from last_filter_distinct [OF d l] assms(2) show ?thesis
    by (simp add: saved_worker_def snapshot_industry_def k)
qed

lemma load_production_snapshot:
  "length ps = length qs \<Longrightarrow>
   map NextAt (load_production ps (map (\<lambda>entry. \<lparr>sNextAt = NextAt entry\<rparr>) qs)) = map NextAt qs"
  by (induction ps qs rule: list_induct2) simp_all

lemma same_configuration_nth:
  assumes "same_configuration g0 g" and "i < length (Industries g)"
  shows "iKey (Industries g0 ! i) = iKey (Industries g ! i)"
    and "map Definition (Workers (Industries g0 ! i)) = map Definition (Workers (Industries g ! i))"
    and "length (Workers (Industries g0 ! i)) = length (Workers (Industries g ! i))"
    and "length (Industries g0) = length (Industries g)"
proof -
  from assms(1) have a: "map iKey (Industries g0) = map iKey (Industries g)"
    and b: "map (\<lambda>industry. map Definition (Workers industry)) (Industries g0) =
       map (\<lambda>industry. map Definition (Workers industry)) (Industries g)"
    by (simp_all add: same_configuration_def)
  from a show l: "length (Industries g0) = length (Industries g)"
    by (rule map_eq_imp_length_eq)
  from a assms(2) l show "iKey (Industries g0 ! i) = iKey (Industries g ! i)"
    by (metis nth_map)
  from b assms(2) l show d: "map Definition (Workers (Industries g0 ! i)) =
      map Definition (Workers (Industries g ! i))"
    by (metis (no_types, lifting) nth_map)
  from d show "length (Workers (Industries g0 ! i)) = length (Workers (Industries g ! i))"
    by (rule map_eq_imp_length_eq)
qed

lemma snapshot_valid:
  assumes c: "same_configuration g0 g" and d: "keys_distinct g"
  shows "structurally_valid g0 (snapshot g now)"
proof -
  have "iKey industry \<in> siKey ` set (sIndustries (snapshot g now)) \<and>
        (\<forall>worker\<in>set (Workers industry). Key (Definition worker) \<in>
           sKey ` set (siWorkers (saved_industry (snapshot g now) (iKey industry))))"
    if m: "industry \<in> set (Industries g0)" for industry
  proof -
    from m obtain i where i0: "i < length (Industries g0)" and e: "industry = Industries g0 ! i"
      by (auto simp: in_set_conv_nth)
    from c have "length (Industries g0) = length (Industries g)"
      by (auto simp: same_configuration_def dest: map_eq_imp_length_eq)
    with i0 have i: "i < length (Industries g)" by simp
    note n = same_configuration_nth [OF c i]
    from d have di: "distinct (map iKey (Industries g))"
      by (simp add: keys_distinct_def)
    have 1: "iKey industry \<in> siKey ` set (sIndustries (snapshot g now))"
      using i e n(1) by (force simp: snapshot_def snapshot_industry_def image_iff in_set_conv_nth)
    have s: "saved_industry (snapshot g now) (iKey industry) = snapshot_industry (Industries g ! i)"
      using saved_industry_snapshot [OF di i] e n(1) by simp
    have "Key (Definition worker) \<in> sKey ` set (siWorkers (snapshot_industry (Industries g ! i)))"
      if w: "worker \<in> set (Workers industry)" for worker
    proof -
      from w e obtain j where j0: "j < length (Workers (Industries g0 ! i))"
        and ew: "worker = Workers (Industries g0 ! i) ! j"
        by (auto simp: in_set_conv_nth)
      from j0 n(3) have j: "j < length (Workers (Industries g ! i))" by simp
      from n(2) j0 j have "Definition worker = Definition (Workers (Industries g ! i) ! j)"
        unfolding ew by (metis nth_map)
      with j show ?thesis
        by (force simp: snapshot_industry_def snapshot_worker_def image_iff in_set_conv_nth)
    qed
    with 1 s show ?thesis by simp
  qed
  moreover from c have "length (sProduction (snapshot g now)) = length (Production g0)"
    "length (sIndustries (snapshot g now)) = length (Industries g0)"
    by (auto simp: same_configuration_def snapshot_def dest: map_eq_imp_length_eq)
  ultimately show ?thesis
    by (simp add: structurally_valid_def) (simp add: snapshot_def)
qed

text \<open>
  C2 (amended). Save a state \<open>g\<close> whose industry keys are pairwise distinct and whose
  worker keys are distinct within each industry, and load the snapshot into any live
  state \<open>g0\<close> of the same configuration (\<open>g\<close> itself, or what \<open>g\<close> has become since). The
  load succeeds. Afterwards the ledger, both mode flags and the next-fire timestamp of
  every passive producer are those of \<open>g\<close> at save time; every worker has the owned-count
  and the tier it had in \<open>g\<close>, is idle, and has its cycle end cleared; and its auto flag
  is the flag it had in \<open>g\<close> or the latch condition (auto-tier threshold positive and
  reached by the saved tier), which the load re-evaluates.
\<close>

theorem snapshot_roundtrip:
  assumes "same_configuration g0 g" and "keys_distinct g"
  shows "snd (applySnapshot g0 (snapshot g now)) = None \<and>
     Resources (fst (applySnapshot g0 (snapshot g now))) = Resources g \<and>
     BuyModeMax (fst (applySnapshot g0 (snapshot g now))) = BuyModeMax g \<and>
     DevMode (fst (applySnapshot g0 (snapshot g now))) = DevMode g \<and>
     map NextAt (Production (fst (applySnapshot g0 (snapshot g now)))) = map NextAt (Production g) \<and>
     length (Industries (fst (applySnapshot g0 (snapshot g now)))) = length (Industries g) \<and>
     (\<forall>i<length (Industries g).
        length (Workers (Industries (fst (applySnapshot g0 (snapshot g now))) ! i)) =
          length (Workers (Industries g ! i)) \<and>
        (\<forall>j<length (Workers (Industries g ! i)).
           Owned (Workers (Industries (fst (applySnapshot g0 (snapshot g now))) ! i) ! j) =
             Owned (Workers (Industries g ! i) ! j) \<and>
           Tier (Workers (Industries (fst (applySnapshot g0 (snapshot g now))) ! i) ! j) =
             Tier (Workers (Industries g ! i) ! j) \<and>
           Auto (Workers (Industries (fst (applySnapshot g0 (snapshot g now))) ! i) ! j) =
             (Auto (Workers (Industries g ! i) ! j) \<or>
              (0 < AutoTier (Definition (Workers (Industries g ! i) ! j)) \<and>
               AutoTier (Definition (Workers (Industries g ! i) ! j)) \<le>
                 Tier (Workers (Industries g ! i) ! j))) \<and>
           \<not> Running (Workers (Industries (fst (applySnapshot g0 (snapshot g now))) ! i) ! j) \<and>
           EndsAt (Workers (Industries (fst (applySnapshot g0 (snapshot g now))) ! i) ! j) =
             zeroTime))"
proof -
  let ?snap = "snapshot g now"
  let ?g' = "fst (applySnapshot g0 ?snap)"
  note v = snapshot_valid [OF assms, of now]
  note r = applySnapshot_success [OF v]
  from assms(1) have lp: "length (Production g0) = length (Production g)"
    and li: "length (Industries g0) = length (Industries g)"
    by (auto simp: same_configuration_def dest: map_eq_imp_length_eq)
  have 1: "snd (applySnapshot g0 ?snap) = None"
    by (simp add: r)
  have 2: "Resources ?g' = Resources g" "BuyModeMax ?g' = BuyModeMax g" "DevMode ?g' = DevMode g"
    by (simp_all add: r) (simp_all add: snapshot_def)
  have 3: "map NextAt (Production ?g') = map NextAt (Production g)"
    using load_production_snapshot [OF lp] by (simp add: r) (simp add: snapshot_def)
  have 4: "length (Industries ?g') = length (Industries g)"
    by (simp add: r li)
  have 5: "length (Workers (Industries ?g' ! i)) = length (Workers (Industries g ! i))"
    if i: "i < length (Industries g)" for i
    using i li same_configuration_nth(3) [OF assms(1) i]
    by (simp add: r load_industry_def)
  have 6: "Workers (Industries ?g' ! i) ! j =
        load_worker (Workers (Industries g0 ! i) ! j) (snapshot_worker (Workers (Industries g ! i) ! j))
      \<and> Definition (Workers (Industries g0 ! i) ! j) = Definition (Workers (Industries g ! i) ! j)"
    if i: "i < length (Industries g)" and j: "j < length (Workers (Industries g ! i))" for i j
  proof -
    note n = same_configuration_nth [OF assms(1) i]
    from i li have i0: "i < length (Industries g0)" by simp
    from j n(3) have j0: "j < length (Workers (Industries g0 ! i))" by simp
    from n(2) j0 j have dd: "Definition (Workers (Industries g0 ! i) ! j) =
        Definition (Workers (Industries g ! i) ! j)"
      by (metis nth_map)
    from assms(2) i have di: "distinct (map iKey (Industries g))"
      and dw: "distinct (map (\<lambda>w. Key (Definition w)) (Workers (Industries g ! i)))"
      by (simp_all add: keys_distinct_def)
    have "Workers (Industries ?g' ! i) ! j =
        load_worker (Workers (Industries g0 ! i) ! j)
          (saved_worker (saved_industry ?snap (iKey (Industries g0 ! i)))
             (Key (Definition (Workers (Industries g0 ! i) ! j))))"
      by (rule loaded_worker [OF v i0 j0])
    also have "saved_industry ?snap (iKey (Industries g0 ! i)) = snapshot_industry (Industries g ! i)"
      using saved_industry_snapshot [OF di i] n(1) by simp
    also have "saved_worker (snapshot_industry (Industries g ! i))
             (Key (Definition (Workers (Industries g0 ! i) ! j))) =
          snapshot_worker (Workers (Industries g ! i) ! j)"
      using saved_worker_snapshot [OF dw j] dd by simp
    finally show ?thesis using dd by simp
  qed
  show ?thesis
  proof (intro conjI allI impI)
    fix i j
    assume i: "i < length (Industries g)" and j: "j < length (Workers (Industries g ! i))"
    note w = 6 [OF i j]
    show "Owned (Workers (Industries ?g' ! i) ! j) = Owned (Workers (Industries g ! i) ! j)"
      by (simp add: w load_worker_def snapshot_worker_def)
    show "Tier (Workers (Industries ?g' ! i) ! j) = Tier (Workers (Industries g ! i) ! j)"
      by (simp add: w load_worker_def snapshot_worker_def)
    show "Auto (Workers (Industries ?g' ! i) ! j) =
             (Auto (Workers (Industries g ! i) ! j) \<or>
              (0 < AutoTier (Definition (Workers (Industries g ! i) ! j)) \<and>
               AutoTier (Definition (Workers (Industries g ! i) ! j)) \<le>
                 Tier (Workers (Industries g ! i) ! j)))"
      using w by (simp add: load_worker_def snapshot_worker_def)
    show "\<not> Running (Workers (Industries ?g' ! i) ! j)"
      by (simp add: w load_worker_def)
    show "EndsAt (Workers (Industries ?g' ! i) ! j) = zeroTime"
      by (simp add: w load_worker_def)
  qed (use 1 2 3 4 5 in simp_all)
qed

text \<open>
  An instance: the live state has moved on since the save (other counts, tiers, flags,
  ledger and next-fire timestamp); the load brings back the saved values. The first
  worker loses the auto flag it had gained since (saved tier 3 below the threshold 5);
  the second worker gains it (saved tier 2 reaches the threshold 2).
\<close>

theorem snapshot_roundtrip_witness:
  "same_configuration liveProd savedProd \<and> keys_distinct savedProd \<and>
   snd (applySnapshot liveProd (snapshot savedProd 7)) = None \<and>
   Resources (fst (applySnapshot liveProd (snapshot savedProd 7))) = [''coins'' \<mapsto> 40] \<and>
   BuyModeMax (fst (applySnapshot liveProd (snapshot savedProd 7))) \<and>
   DevMode (fst (applySnapshot liveProd (snapshot savedProd 7))) \<and>
   map NextAt (Production (fst (applySnapshot liveProd (snapshot savedProd 7)))) = [2000] \<and>
   Owned (Workers (Industries (fst (applySnapshot liveProd (snapshot savedProd 7))) ! 0) ! 0) = 2 \<and>
   Tier (Workers (Industries (fst (applySnapshot liveProd (snapshot savedProd 7))) ! 0) ! 0) = 3 \<and>
   \<not> Auto (Workers (Industries (fst (applySnapshot liveProd (snapshot savedProd 7))) ! 0) ! 0) \<and>
   \<not> Running (Workers (Industries (fst (applySnapshot liveProd (snapshot savedProd 7))) ! 0) ! 0) \<and>
   EndsAt (Workers (Industries (fst (applySnapshot liveProd (snapshot savedProd 7))) ! 0) ! 0) = zeroTime \<and>
   Auto (Workers (Industries (fst (applySnapshot liveProd (snapshot savedProd 7))) ! 0) ! 1)"
proof -
  have c: "same_configuration liveProd savedProd"
    by (simp add: same_configuration_def liveProd_def savedProd_def)
  have d: "keys_distinct savedProd"
    by (simp add: keys_distinct_def savedProd_def demoWorker_def)
  note t = snapshot_roundtrip [OF c d, of 7]
  have l: "0 < length (Industries savedProd)"
    "0 < length (Workers (Industries savedProd ! 0))"
    "1 < length (Workers (Industries savedProd ! 0))"
    by (simp_all add: savedProd_def)
  let ?g' = "fst (applySnapshot liveProd (snapshot savedProd 7))"
  from t have a: "snd (applySnapshot liveProd (snapshot savedProd 7)) = None"
    "Resources ?g' = Resources savedProd" "BuyModeMax ?g' = BuyModeMax savedProd"
    "DevMode ?g' = DevMode savedProd" "map NextAt (Production ?g') = map NextAt (Production savedProd)"
    by blast+
  from t l(1,2) have w0:
    "Owned (Workers (Industries ?g' ! 0) ! 0) = Owned (Workers (Industries savedProd ! 0) ! 0)"
    "Tier (Workers (Industries ?g' ! 0) ! 0) = Tier (Workers (Industries savedProd ! 0) ! 0)"
    "Auto (Workers (Industries ?g' ! 0) ! 0) =
       (Auto (Workers (Industries savedProd ! 0) ! 0) \<or>
        (0 < AutoTier (Definition (Workers (Industries savedProd ! 0) ! 0)) \<and>
         AutoTier (Definition (Workers (Industries savedProd ! 0) ! 0)) \<le>
           Tier (Workers (Industries savedProd ! 0) ! 0)))"
    "\<not> Running (Workers (Industries ?g' ! 0) ! 0)"
    "EndsAt (Workers (Industries ?g' ! 0) ! 0) = zeroTime"
    by blast+
  from t l(1,3) have w1:
    "Auto (Workers (Industries ?g' ! 0) ! 1) =
       (Auto (Workers (Industries savedProd ! 0) ! 1) \<or>
        (0 < AutoTier (Definition (Workers (Industries savedProd ! 0) ! 1)) \<and>
         AutoTier (Definition (Workers (Industries savedProd ! 0) ! 1)) \<le>
           Tier (Workers (Industries savedProd ! 0) ! 1)))"
    by blast
  from a have a': "snd (applySnapshot liveProd (snapshot savedProd 7)) = None"
    "Resources ?g' = [''coins'' \<mapsto> 40]" "BuyModeMax ?g'" "DevMode ?g'"
    "map NextAt (Production ?g') = [2000]"
    by (simp_all add: savedProd_def)
  from w0 have w0': "Owned (Workers (Industries ?g' ! 0) ! 0) = 2"
    "Tier (Workers (Industries ?g' ! 0) ! 0) = 3"
    "\<not> Auto (Workers (Industries ?g' ! 0) ! 0)"
    "\<not> Running (Workers (Industries ?g' ! 0) ! 0)"
    "EndsAt (Workers (Industries ?g' ! 0) ! 0) = zeroTime"
    by (simp_all add: savedProd_def demoWorker_def)
  from w1 have w1': "Auto (Workers (Industries ?g' ! 0) ! 1)"
    by (simp add: savedProd_def demoWorker_def)
  from c d a' w0' w1' show ?thesis
    by blast
qed

text \<open>
  The claim as stated fails on reachable states. BuildGame of a configuration whose worker
  has auto-tier 1 yields a worker at tier 1 with the auto flag false; saving and loading
  that state sets the flag. And BuildGame of a configuration with two workers of one key
  in an industry (LoadConfig and BuildGame accept it) yields owned-counts 1 and 0; saving
  and loading that state gives both workers the entry stored last, so the first worker
  owns 0.
\<close>

theorem snapshot_roundtrip_auto_counterexample:
  "BuildGame 0 autoOneConfig = Inr autoOneGame \<and>
   snd (applySnapshot autoOneGame (snapshot autoOneGame 0)) = None \<and>
   \<not> Auto (Workers (Industries autoOneGame ! 0) ! 0) \<and>
   Auto (Workers (Industries (fst (applySnapshot autoOneGame (snapshot autoOneGame 0))) ! 0) ! 0) \<and>
   BuildGame 0 twinConfig = Inr twinGame \<and>
   snd (applySnapshot twinGame (snapshot twinGame 0)) = None \<and>
   Owned (Workers (Industries twinGame ! 0) ! 0) = 1 \<and>
   Owned (Workers (Industries (fst (applySnapshot twinGame (snapshot twinGame 0))) ! 0) ! 0) = 0"
proof -
  have 1: "BuildGame 0 autoOneConfig = Inr autoOneGame"
    by (simp add: BuildGame_def autoOneConfig_def autoOneGame_def build_industry_def
        buildPassiveProduction_def)
  have 2: "snd (applySnapshot autoOneGame (snapshot autoOneGame 0)) = None \<and>
   \<not> Auto (Workers (Industries autoOneGame ! 0) ! 0) \<and>
   Auto (Workers (Industries (fst (applySnapshot autoOneGame (snapshot autoOneGame 0))) ! 0) ! 0)"
    by (simp add: autoOneGame_def applySnapshot_def snapshot_def snapshot_industry_def
        snapshot_worker_def industryLookup_def workerLookup_def load_worker_def demoWorker_def)
  have 3: "BuildGame 0 twinConfig = Inr twinGame"
    by (simp add: BuildGame_def twinConfig_def twinGame_def build_industry_def
        buildPassiveProduction_def)
  have 4: "snd (applySnapshot twinGame (snapshot twinGame 0)) = None \<and>
   Owned (Workers (Industries twinGame ! 0) ! 0) = 1 \<and>
   Owned (Workers (Industries (fst (applySnapshot twinGame (snapshot twinGame 0))) ! 0) ! 0) = 0"
    by (simp add: twinGame_def applySnapshot_def snapshot_def snapshot_industry_def
        snapshot_worker_def industryLookup_def workerLookup_def load_worker_def demoWorker_def)
  from 1 2 3 4 show ?thesis by simp
qed

subsection \<open>Affordability, the debit loop and maxAffordable\<close>




lemma int_le_div_iff:
  fixes m a b :: int
  assumes "0 < a"
  shows "m \<le> b div a \<longleftrightarrow> m * a \<le> b"
proof
  assume "m \<le> b div a"
  with assms have "m * a \<le> (b div a) * a"
    by (simp add: mult_right_mono)
  also have "(b div a) * a \<le> b"
  proof -
    have "b = (b div a) * a + b mod a" by simp
    moreover from assms have "0 \<le> b mod a" by simp
    ultimately show ?thesis by linarith
  qed
  finally show "m * a \<le> b" .
next
  assume "m * a \<le> b"
  then have "(m * a) div a \<le> b div a"
    using assms by (rule zdiv_mono1)
  with assms show "m \<le> b div a"
    by simp
qed

lemma sdiv_nonneg: "0 \<le> b \<Longrightarrow> 0 < a \<Longrightarrow> b sdiv a = b div (a :: int)"
  by (simp add: signed_divide_int_def sgn_if)

lemma loop_le_limit: "maxAffordable_loop c res l \<le> l"
proof (induction c res l rule: maxAffordable_loop.induct)
  case (1 res l)
  then show ?case by simp
next
  case (2 r0 a0 rest res l)
  show ?case
  proof (cases "a0 \<le> 0")
    case True
    with "2.IH"(1) show ?thesis by simp
  next
    case False
    have "minInt l (getR res r0 sdiv a0) \<le> l"
      by (simp add: minInt_def)
    with "2.IH"(2) [OF False] False show ?thesis
      by simp
  qed
qed

lemma loop_le_entry:
  "(r, a) \<in> set c \<Longrightarrow> 0 < a \<Longrightarrow> maxAffordable_loop c res l \<le> getR res r sdiv a"
proof (induction c res l rule: maxAffordable_loop.induct)
  case (1 res l)
  then show ?case by simp
next
  case (2 r0 a0 rest res l)
  show ?case
  proof (cases "(r, a) = (r0, a0)")
    case True
    with "2.prems" have "maxAffordable_loop ((r0, a0) # rest) res l =
        maxAffordable_loop rest res (minInt l (getR res r sdiv a))"
      by simp
    also have "\<dots> \<le> minInt l (getR res r sdiv a)"
      by (rule loop_le_limit)
    also have "\<dots> \<le> getR res r sdiv a"
      by (simp add: minInt_def)
    finally show ?thesis .
  next
    case False
    with "2.prems" have m: "(r, a) \<in> set rest" by auto
    show ?thesis
    proof (cases "a0 \<le> 0")
      case True
      with "2.IH"(1) [OF True m "2.prems"(2)] show ?thesis by simp
    next
      case F: False
      with "2.IH"(2) [OF F m "2.prems"(2)] show ?thesis by simp
    qed
  qed
qed

lemma loop_attained:
  "maxAffordable_loop c res l = l \<or>
   (\<exists>(r, a)\<in>set c. 0 < a \<and> maxAffordable_loop c res l = getR res r sdiv a)"
proof (induction c res l rule: maxAffordable_loop.induct)
  case (1 res l)
  then show ?case by simp
next
  case (2 r0 a0 rest res l)
  show ?case
  proof (cases "a0 \<le> 0")
    case True
    with "2.IH"(1) [OF True] show ?thesis by auto
  next
    case False
    let ?l' = "minInt l (getR res r0 sdiv a0)"
    from False have e: "maxAffordable_loop ((r0, a0) # rest) res l = maxAffordable_loop rest res ?l'"
      by simp
    from "2.IH"(2) [OF False] show ?thesis
    proof
      assume "maxAffordable_loop rest res ?l' = ?l'"
      with e False show ?thesis
        by (cases "l < getR res r0 sdiv a0") (simp_all add: minInt_def)
    next
      assume "\<exists>(r, a)\<in>set rest. 0 < a \<and> maxAffordable_loop rest res ?l' = getR res r sdiv a"
      with e show ?thesis by auto
    qed
  qed
qed

text \<open>With a non-negative ledger, the loop computes the largest affordable count up to the limit.\<close>

lemma loop_affordable:
  assumes "\<forall>(r, a)\<in>set c. 0 < a \<longrightarrow> 0 \<le> getR res r"
    and "(r, a) \<in> set c" and "0 < a"
  shows "maxAffordable_loop c res l * a \<le> getR res r"
proof -
  from assms have nn: "0 \<le> getR res r" by auto
  from loop_le_entry [OF assms(2,3), of res l]
  have "maxAffordable_loop c res l \<le> getR res r div a"
    by (simp add: sdiv_nonneg [OF nn assms(3)])
  with assms(3) show ?thesis
    by (simp add: int_le_div_iff)
qed

lemma loop_largest:
  assumes "\<forall>(r, a)\<in>set c. 0 < a \<longrightarrow> 0 \<le> getR res r"
    and "m \<le> l" and "\<forall>(r, a)\<in>set c. 0 < a \<longrightarrow> m * a \<le> getR res r"
  shows "m \<le> maxAffordable_loop c res l"
  using loop_attained [of c res l]
proof
  assume "maxAffordable_loop c res l = l"
  with assms(2) show ?thesis by simp
next
  assume "\<exists>(r, a)\<in>set c. 0 < a \<and> maxAffordable_loop c res l = getR res r sdiv a"
  then obtain r a where ra: "(r, a) \<in> set c" "0 < a"
    and eq: "maxAffordable_loop c res l = getR res r sdiv a"
    by auto
  from assms(1) ra have nn: "0 \<le> getR res r" by auto
  from assms(3) ra have "m * a \<le> getR res r" by auto
  with ra(2) have "m \<le> getR res r div a"
    by (simp add: int_le_div_iff)
  with eq show ?thesis
    by (simp add: sdiv_nonneg [OF nn ra(2)])
qed

lemma loop_nonneg:
  assumes "\<forall>(r, a)\<in>set c. 0 < a \<longrightarrow> 0 \<le> getR res r" and "0 \<le> l"
  shows "0 \<le> maxAffordable_loop c res l"
proof -
  from assms(1) have "\<forall>(r, a)\<in>set c. 0 < a \<longrightarrow> 0 * a \<le> getR res r"
    by auto
  with assms show ?thesis
    by (rule loop_largest)
qed

lemma loop_limit_iff:
  "maxAffordable_loop c res l = l \<longleftrightarrow> (\<forall>(r, a)\<in>set c. 0 < a \<longrightarrow> l \<le> getR res r sdiv a)"
proof
  assume e: "maxAffordable_loop c res l = l"
  show "\<forall>(r, a)\<in>set c. 0 < a \<longrightarrow> l \<le> getR res r sdiv a"
  proof (clarify)
    fix r a
    assume "(r, a) \<in> set c" "0 < a"
    from loop_le_entry [OF this, of res l] e show "l \<le> getR res r sdiv a"
      by simp
  qed
next
  assume a: "\<forall>(r, a)\<in>set c. 0 < a \<longrightarrow> l \<le> getR res r sdiv a"
  from loop_attained [of c res l] show "maxAffordable_loop c res l = l"
  proof
    assume "maxAffordable_loop c res l = l"
    then show ?thesis .
  next
    assume "\<exists>(r, a)\<in>set c. 0 < a \<and> maxAffordable_loop c res l = getR res r sdiv a"
    then obtain r b where "(r, b) \<in> set c" "0 < b"
      and "maxAffordable_loop c res l = getR res r sdiv b"
      by auto
    with a have "l \<le> maxAffordable_loop c res l" by auto
    with loop_le_limit [of c res l] show ?thesis by simp
  qed
qed

lemma MaxInt_pos: "0 < MaxInt"
  by (simp add: MaxInt_def)

lemma maxAffordable_cases:
  "maxAffordable c res =
     (if \<forall>(r, a)\<in>set c. 0 < a \<longrightarrow> MaxInt \<le> getR res r sdiv a then 0
      else maxAffordable_loop c res MaxInt)"
  by (simp add: maxAffordable_def Let_def loop_limit_iff)

lemma maxAffordable_no_positive:
  "\<not> (\<exists>(r, a)\<in>set c. 0 < a) \<Longrightarrow> maxAffordable c res = 0"
  by (auto simp: maxAffordable_cases)

lemma maxAffordable_nonneg:
  assumes "\<forall>(r, a)\<in>set c. 0 < a \<longrightarrow> 0 \<le> getR res r"
  shows "0 \<le> maxAffordable c res"
  using loop_nonneg [OF assms, of MaxInt] MaxInt_pos
  by (simp add: maxAffordable_def Let_def)

lemma maxAffordable_affordable:
  assumes "\<forall>(r, a)\<in>set c. 0 < a \<longrightarrow> 0 \<le> getR res r"
    and "(r, a) \<in> set c" and "0 < a"
  shows "maxAffordable c res * a \<le> getR res r"
proof (cases "maxAffordable_loop c res MaxInt = MaxInt")
  case True
  with assms show ?thesis
    by (auto simp: maxAffordable_def)
next
  case False
  with loop_affordable [OF assms, of MaxInt] show ?thesis
    by (simp add: maxAffordable_def)
qed





subsection \<open>BuyWorker and UpgradeWorker\<close>

lemma BuyWorker_max_dev:
  assumes "worker_at g i j = Some w" and "BuyModeMax g" and "DevMode g"
  shows "BuyWorker g i j =
     Some (''bought '' @ show_int (max 1 (maxAffordable (Cost (Definition w)) (Resources g))),
           set_worker g i j
             (w\<lparr>Owned := Owned w + max 1 (maxAffordable (Cost (Definition w)) (Resources g))\<rparr>))"
proof -
  let ?n = "maxAffordable (Cost (Definition w)) (Resources g)"
  have m: "(if ?n < 1 then 1 else ?n) = max 1 ?n" by (simp add: max_def)
  have p: "\<not> max 1 ?n \<le> 0" by simp
  from assms have "buy_count g (Cost (Definition w)) = Some (max 1 ?n)"
    by (simp add: buy_count_def Let_def m)
  with assms(1,3) p show ?thesis
    by (simp add: BuyWorker_def Let_def)
qed

lemma BuyWorker_max_fail:
  assumes "worker_at g i j = Some w" and "BuyModeMax g" and "\<not> DevMode g"
    and "maxAffordable (Cost (Definition w)) (Resources g) \<le> 0"
  shows "BuyWorker g i j = Some (''cannot afford'', g)"
  using assms by (simp add: BuyWorker_def buy_count_def Let_def)

lemma BuyWorker_max_ok:
  assumes "worker_at g i j = Some w" and "BuyModeMax g" and "\<not> DevMode g"
    and "0 < maxAffordable (Cost (Definition w)) (Resources g)"
  shows "BuyWorker g i j =
     Some (''bought '' @ show_int (maxAffordable (Cost (Definition w)) (Resources g)),
           set_worker
             (g\<lparr>Resources := debit (Cost (Definition w))
                  (maxAffordable (Cost (Definition w)) (Resources g)) (Resources g)\<rparr>) i j
             (w\<lparr>Owned := Owned w + maxAffordable (Cost (Definition w)) (Resources g)\<rparr>))"
  using assms by (simp add: BuyWorker_def buy_count_def Let_def)



text \<open>
  C4 (amended). In buy-max mode the count of BuyWorker is maxAffordable of the worker's
  cost table. When the positive-cost resources have non-negative balances and one of them
  bounds the count below MaxInt, that count is the largest integer n \<ge> 0 with
  n \<times> unit cost \<le> balance for every resource of positive unit cost; resources of zero or
  negative unit cost do not constrain it. When the cost table has no positive entry the
  count is not unbounded: maxAffordable returns 0. In developer mode a count below 1 is
  raised to 1, the purchase succeeds, the owned-count grows by the count and the ledger is
  not debited. Outside developer mode a count of zero or less fails with "cannot afford"
  and changes no state, and a positive count is bought and debited.
\<close>

theorem buy_max_count:
  assumes "worker_at g i j = Some w" and "BuyModeMax g"
  shows
   "((\<exists>(r, a)\<in>set (Cost (Definition w)). 0 < a \<and> getR (Resources g) r sdiv a < MaxInt) \<and>
     (\<forall>(r, a)\<in>set (Cost (Definition w)). 0 < a \<longrightarrow> 0 \<le> getR (Resources g) r) \<longrightarrow>
       0 \<le> maxAffordable (Cost (Definition w)) (Resources g) \<and>
       (\<forall>(r, a)\<in>set (Cost (Definition w)). 0 < a \<longrightarrow>
          maxAffordable (Cost (Definition w)) (Resources g) * a \<le> getR (Resources g) r) \<and>
       (\<forall>m. (\<forall>(r, a)\<in>set (Cost (Definition w)). 0 < a \<longrightarrow> m * a \<le> getR (Resources g) r) \<longrightarrow>
          m \<le> maxAffordable (Cost (Definition w)) (Resources g))) \<and>
    (\<not> (\<exists>(r, a)\<in>set (Cost (Definition w)). 0 < a) \<longrightarrow>
       maxAffordable (Cost (Definition w)) (Resources g) = 0) \<and>
    (DevMode g \<longrightarrow>
       BuyWorker g i j =
         Some (''bought '' @ show_int (max 1 (maxAffordable (Cost (Definition w)) (Resources g))),
               set_worker g i j
                 (w\<lparr>Owned := Owned w +
                      max 1 (maxAffordable (Cost (Definition w)) (Resources g))\<rparr>))) \<and>
    (\<not> DevMode g \<and> maxAffordable (Cost (Definition w)) (Resources g) \<le> 0 \<longrightarrow>
       BuyWorker g i j = Some (''cannot afford'', g)) \<and>
    (\<not> DevMode g \<and> 0 < maxAffordable (Cost (Definition w)) (Resources g) \<longrightarrow>
       BuyWorker g i j =
         Some (''bought '' @ show_int (maxAffordable (Cost (Definition w)) (Resources g)),
               set_worker
                 (g\<lparr>Resources := debit (Cost (Definition w))
                      (maxAffordable (Cost (Definition w)) (Resources g)) (Resources g)\<rparr>) i j
                 (w\<lparr>Owned := Owned w + maxAffordable (Cost (Definition w)) (Resources g)\<rparr>)))"
proof (intro conjI impI)
  let ?c = "Cost (Definition w)" and ?res = "Resources g"
  assume h: "(\<exists>(r, a)\<in>set ?c. 0 < a \<and> getR ?res r sdiv a < MaxInt) \<and>
     (\<forall>(r, a)\<in>set ?c. 0 < a \<longrightarrow> 0 \<le> getR ?res r)"
  then have nn: "\<forall>(r, a)\<in>set ?c. 0 < a \<longrightarrow> 0 \<le> getR ?res r" ..
  from h obtain r0 a0 where b: "(r0, a0) \<in> set ?c" "0 < a0" "getR ?res r0 sdiv a0 < MaxInt"
    by auto
  then have "\<not> (\<forall>(r, a)\<in>set ?c. 0 < a \<longrightarrow> MaxInt \<le> getR ?res r sdiv a)"
    by force
  then have e: "maxAffordable ?c ?res = maxAffordable_loop ?c ?res MaxInt"
    by (subst maxAffordable_cases) (simp only: if_False)
  show "0 \<le> maxAffordable ?c ?res"
    by (rule maxAffordable_nonneg [OF nn])
  show "\<forall>(r, a)\<in>set ?c. 0 < a \<longrightarrow> maxAffordable ?c ?res * a \<le> getR ?res r"
    using maxAffordable_affordable [OF nn] by blast
  show "\<forall>m. (\<forall>(r, a)\<in>set ?c. 0 < a \<longrightarrow> m * a \<le> getR ?res r) \<longrightarrow> m \<le> maxAffordable ?c ?res"
  proof (intro allI impI)
    fix m
    assume a: "\<forall>(r, a)\<in>set ?c. 0 < a \<longrightarrow> m * a \<le> getR ?res r"
    from nn b have n0: "0 \<le> getR ?res r0" by auto
    from a b have "m * a0 \<le> getR ?res r0" by auto
    with b(2) have "m \<le> getR ?res r0 div a0"
      by (simp add: int_le_div_iff)
    with b(3) have "m \<le> MaxInt"
      by (simp add: sdiv_nonneg [OF n0 b(2)])
    from loop_largest [OF nn this a] show "m \<le> maxAffordable ?c ?res"
      by (simp only: e)
  qed
next
  assume "\<not> (\<exists>(r, a)\<in>set (Cost (Definition w)). 0 < a)"
  then show "maxAffordable (Cost (Definition w)) (Resources g) = 0"
    by (rule maxAffordable_no_positive)
next
  assume "DevMode g"
  with assms show "BuyWorker g i j =
         Some (''bought '' @ show_int (max 1 (maxAffordable (Cost (Definition w)) (Resources g))),
               set_worker g i j
                 (w\<lparr>Owned := Owned w +
                      max 1 (maxAffordable (Cost (Definition w)) (Resources g))\<rparr>))"
    by (rule BuyWorker_max_dev)
next
  assume "\<not> DevMode g \<and> maxAffordable (Cost (Definition w)) (Resources g) \<le> 0"
  with assms show "BuyWorker g i j = Some (''cannot afford'', g)"
    by (simp add: BuyWorker_max_fail)
next
  assume "\<not> DevMode g \<and> 0 < maxAffordable (Cost (Definition w)) (Resources g)"
  with assms show "BuyWorker g i j =
         Some (''bought '' @ show_int (maxAffordable (Cost (Definition w)) (Resources g)),
               set_worker
                 (g\<lparr>Resources := debit (Cost (Definition w))
                      (maxAffordable (Cost (Definition w)) (Resources g)) (Resources g)\<rparr>) i j
                 (w\<lparr>Owned := Owned w + maxAffordable (Cost (Definition w)) (Resources g)\<rparr>))"
    by (simp add: BuyWorker_max_ok)
qed

lemma show_int_digit:
  "show_int 1 = ''1''" "show_int 3 = ''3''" "show_int 4 = ''4''"
  by (simp_all add: show_int_def show_nat.simps digit_def)

text \<open>
  Instances. With costs of 10 coins, 3 wood and 0 gems and balances of 47 coins and 9
  wood, buy-max buys 3 (the wood bounds it) and debits 30 coins and 9 wood. With 4 coins
  against a cost of 10, developer mode buys 1 and leaves the ledger, and outside developer
  mode the purchase is refused.
\<close>

theorem buy_max_count_witness:
  "maxAffordable mixedCost [''coins'' \<mapsto> 47, ''wood'' \<mapsto> 9] = 3 \<and>
   fst (the (BuyWorker (shopGame mixedCost [''coins'' \<mapsto> 47, ''wood'' \<mapsto> 9] True False) 0 0)) =
     ''bought 3'' \<and>
   Owned (Workers (Industries (snd (the (BuyWorker
     (shopGame mixedCost [''coins'' \<mapsto> 47, ''wood'' \<mapsto> 9] True False) 0 0))) ! 0) ! 0) = 4 \<and>
   Resources (snd (the (BuyWorker
     (shopGame mixedCost [''coins'' \<mapsto> 47, ''wood'' \<mapsto> 9] True False) 0 0))) ''coins'' = Some 17 \<and>
   Resources (snd (the (BuyWorker
     (shopGame mixedCost [''coins'' \<mapsto> 47, ''wood'' \<mapsto> 9] True False) 0 0))) ''wood'' = Some 0 \<and>
   fst (the (BuyWorker (shopGame [(''coins'', 10)] [''coins'' \<mapsto> 4] True True) 0 0)) = ''bought 1'' \<and>
   Owned (Workers (Industries (snd (the (BuyWorker
     (shopGame [(''coins'', 10)] [''coins'' \<mapsto> 4] True True) 0 0))) ! 0) ! 0) = 2 \<and>
   Resources (snd (the (BuyWorker
     (shopGame [(''coins'', 10)] [''coins'' \<mapsto> 4] True True) 0 0))) = [''coins'' \<mapsto> 4] \<and>
   BuyWorker (shopGame [(''coins'', 10)] [''coins'' \<mapsto> 4] True False) 0 0 =
     Some (''cannot afford'', shopGame [(''coins'', 10)] [''coins'' \<mapsto> 4] True False)"
proof -
  let ?A = "shopGame mixedCost [''coins'' \<mapsto> 47, ''wood'' \<mapsto> 9] True False"
  let ?wA = "\<lparr>Definition = (demoWorker ''miner'' 5)\<lparr>Cost := mixedCost\<rparr>, Owned = 1, Tier = 1,
                      Running = False, EndsAt = zeroTime, Auto = False\<rparr>"
  have wA: "worker_at ?A 0 0 = Some ?wA" and mA: "BuyModeMax ?A" and dA: "\<not> DevMode ?A"
    and rA: "Resources ?A = [''coins'' \<mapsto> 47, ''wood'' \<mapsto> 9]"
    by (simp_all add: worker_at_def shopGame_def)
  have nA: "maxAffordable mixedCost [''coins'' \<mapsto> 47, ''wood'' \<mapsto> 9] = 3"
    by (simp add: maxAffordable_def mixedCost_def minInt_def getR_def MaxInt_def)
  have cA: "Cost (Definition ?wA) = mixedCost" by simp
  from buy_max_count [OF wA mA] dA nA
  have bA: "BuyWorker ?A 0 0 = Some (''bought '' @ show_int 3,
      set_worker (?A\<lparr>Resources := debit mixedCost 3 [''coins'' \<mapsto> 47, ''wood'' \<mapsto> 9]\<rparr>) 0 0
        (?wA\<lparr>Owned := Owned ?wA + 3\<rparr>))"
    by (simp only: cA rA) simp
  let ?B = "shopGame [(''coins'', 10)] [''coins'' \<mapsto> 4] True True"
  let ?C = "shopGame [(''coins'', 10)] [''coins'' \<mapsto> 4] True False"
  let ?wB = "\<lparr>Definition = (demoWorker ''miner'' 5)\<lparr>Cost := [(''coins'', 10)]\<rparr>, Owned = 1, Tier = 1,
                      Running = False, EndsAt = zeroTime, Auto = False\<rparr>"
  have wB: "worker_at ?B 0 0 = Some ?wB" and mB: "BuyModeMax ?B" and dB: "DevMode ?B"
    and rB: "Resources ?B = [''coins'' \<mapsto> 4]"
    and wC: "worker_at ?C 0 0 = Some ?wB" and mC: "BuyModeMax ?C" and dC: "\<not> DevMode ?C"
    and rC: "Resources ?C = [''coins'' \<mapsto> 4]"
    by (simp_all add: worker_at_def shopGame_def)
  have nB: "maxAffordable [(''coins'', 10)] [''coins'' \<mapsto> 4] = 0"
    by (simp add: maxAffordable_def minInt_def getR_def MaxInt_def)
  have cB: "Cost (Definition ?wB) = [(''coins'', 10)]" by simp
  from buy_max_count [OF wB mB] dB nB
  have bB: "BuyWorker ?B 0 0 = Some (''bought '' @ show_int 1,
      set_worker ?B 0 0 (?wB\<lparr>Owned := Owned ?wB + 1\<rparr>))"
    by (simp only: cB rB) simp
  from buy_max_count [OF wC mC] dC nB
  have bC: "BuyWorker ?C 0 0 = Some (''cannot afford'', ?C)"
    by (simp only: cB rC) simp
  have 1: "fst (the (BuyWorker ?A 0 0)) = ''bought 3''"
    by (simp add: bA show_int_digit)
  have 2: "Owned (Workers (Industries (snd (the (BuyWorker ?A 0 0))) ! 0) ! 0) = 4"
    by (simp add: bA set_worker_Industries) (simp add: shopGame_def)
  have 3: "Resources (snd (the (BuyWorker ?A 0 0))) ''coins'' = Some 17"
    "Resources (snd (the (BuyWorker ?A 0 0))) ''wood'' = Some 0"
    by (simp_all add: bA) (simp_all add: mixedCost_def getR_def)
  have 4: "fst (the (BuyWorker ?B 0 0)) = ''bought 1''"
    by (simp add: bB show_int_digit)
  have 5: "Owned (Workers (Industries (snd (the (BuyWorker ?B 0 0))) ! 0) ! 0) = 2"
    by (simp add: bB set_worker_Industries) (simp add: shopGame_def)
  have 6: "Resources (snd (the (BuyWorker ?B 0 0))) = [''coins'' \<mapsto> 4]"
    by (simp add: bB rB)
  from nA 1 2 3 4 5 6 bC show ?thesis
    by blast
qed

text \<open>
  The claim as stated fails for a cost table with no positive entry: every count
  satisfies the (empty) constraint, so there is no largest one, and the count of the
  code is not unbounded but 0; outside developer mode the purchase is refused although it
  costs nothing.
\<close>

theorem buy_max_no_positive_entry_counterexample:
  "maxAffordable [(''coins'', 0)] [''coins'' \<mapsto> 100] = 0 \<and>
   BuyWorker (shopGame [(''coins'', 0)] [''coins'' \<mapsto> 100] True False) 0 0 =
     Some (''cannot afford'', shopGame [(''coins'', 0)] [''coins'' \<mapsto> 100] True False) \<and>
   \<not> (\<forall>m. (\<forall>(r, a)\<in>set [(''coins'', 0)]. 0 < a \<longrightarrow> m * a \<le> getR [''coins'' \<mapsto> 100] r) \<longrightarrow>
          m \<le> maxAffordable [(''coins'', 0)] [''coins'' \<mapsto> 100])"
proof -
  have n: "maxAffordable [(''coins'', 0)] [''coins'' \<mapsto> 100] = 0"
    by (simp add: maxAffordable_def)
  have b: "BuyWorker (shopGame [(''coins'', 0)] [''coins'' \<mapsto> 100] True False) 0 0 =
     Some (''cannot afford'', shopGame [(''coins'', 0)] [''coins'' \<mapsto> 100] True False)"
    by (simp add: BuyWorker_def worker_at_def shopGame_def buy_count_def n)
  have "\<not> (\<forall>m. (\<forall>(r, a)\<in>set [(''coins'', 0)]. 0 < a \<longrightarrow> m * a \<le> getR [''coins'' \<mapsto> 100] r) \<longrightarrow>
          m \<le> maxAffordable [(''coins'', 0)] [''coins'' \<mapsto> 100])"
  proof
    assume "\<forall>m. (\<forall>(r, a)\<in>set [(''coins'', 0)]. 0 < a \<longrightarrow> m * a \<le> getR [''coins'' \<mapsto> 100] r) \<longrightarrow>
          m \<le> maxAffordable [(''coins'', 0)] [''coins'' \<mapsto> 100]"
    then have "(\<forall>(r, a)\<in>set [(''coins'', 0 :: int)]. 0 < a \<longrightarrow> 1 * a \<le> getR [''coins'' \<mapsto> 100] r) \<longrightarrow>
          (1 :: int) \<le> maxAffordable [(''coins'', 0)] [''coins'' \<mapsto> 100]"
      by (rule spec)
    then show False by (simp add: n)
  qed
  with n b show ?thesis by blast
qed





lemma UpgradeWorker_dev:
  assumes "worker_at g i j = Some w" and "DevMode g"
  shows "UpgradeWorker fl g i j =
     Some (''upgraded'',
       set_worker g i j
         (if 0 < AutoTier (Definition w) \<and> AutoTier (Definition w) \<le> Tier w + 1
          then w\<lparr>Tier := Tier w + 1, Auto := True\<rparr> else w\<lparr>Tier := Tier w + 1\<rparr>))"
  using assms by (simp add: UpgradeWorker_def Let_def)







subsection \<open>The passive producer\<close>

text \<open>The catch-up loop returns when the interval is positive, after as many rounds as
  intervals have elapsed since the next-fire time.\<close>

lemma int_div_sub_self:
  fixes a d :: int
  assumes "0 < d"
  shows "(a - d) div d + 1 = a div d"
proof -
  from assms have "d \<noteq> 0" by simp
  then have "((a - d) + d) div d = (a - d) div d + 1"
    by (rule div_add_self2)
  then show ?thesis by simp
qed

lemma apply_loop_closed:
  assumes "0 < pProdRate (pDefinition p)" and "\<not> now < NextAt p"
  shows "apply_loop now p res =
     Some (p\<lparr>NextAt := NextAt p +
                ((now - NextAt p) div pProdRate (pDefinition p) + 1) * pProdRate (pDefinition p)\<rparr>,
           res(pResource (pDefinition p) \<mapsto>
                 getR res (pResource (pDefinition p)) +
                 ((now - NextAt p) div pProdRate (pDefinition p) + 1) * pProdQuant (pDefinition p)))"
  using assms
proof (induction "nat (now - NextAt p)" arbitrary: p res rule: less_induct)
  case less
  let ?rate = "pProdRate (pDefinition p)" and ?q = "pProdQuant (pDefinition p)"
  let ?r = "pResource (pDefinition p)"
  let ?p1 = "p\<lparr>NextAt := NextAt p + ?rate\<rparr>"
  let ?res1 = "res(?r \<mapsto> getR res ?r + ?q)"
  from less.prems have step: "apply_loop now p res = apply_loop now ?p1 ?res1"
    by (subst apply_loop.simps) simp
  show ?case
  proof (cases "now < NextAt ?p1")
    case True
    then have "apply_loop now ?p1 ?res1 = Some (?p1, ?res1)"
      by (subst apply_loop.simps) simp
    moreover from True less.prems have "(now - NextAt p) div ?rate = 0"
      by (simp add: div_pos_pos_trivial)
    ultimately show ?thesis
      by (simp add: step)
  next
    case False
    from less.prems False have m: "nat (now - NextAt ?p1) < nat (now - NextAt p)"
      by simp
    have r1: "0 < pProdRate (pDefinition ?p1)"
      using less.prems by simp
    have e: "(now - NextAt p) div ?rate = (now - NextAt ?p1) div ?rate + 1"
      using int_div_sub_self [OF less.prems(1), of "now - NextAt p"]
      by (simp add: algebra_simps)
    have ih: "apply_loop now ?p1 ?res1 =
       Some (?p1\<lparr>NextAt := NextAt ?p1 + ((now - NextAt ?p1) div ?rate + 1) * ?rate\<rparr>,
             ?res1(?r \<mapsto> getR ?res1 ?r + ((now - NextAt ?p1) div ?rate + 1) * ?q))"
      using less.hyps [OF m r1 False] by simp
    show ?thesis
      unfolding step ih e by (simp add: getR_upd algebra_simps)
  qed
qed


lemma apply_passive_returns: "apply_passive now p res \<noteq> None"
  by (cases "0 < pProdRate (pDefinition p)")
     (auto simp: apply_passive_def apply_loop_closed)








end
